theory Spec2Isabelle
  imports Complex_Main
begin

section \<open>JavaScript numbers\<close>

text \<open>
  The interest service computes on JavaScript numbers. A number is modelled as a finite
  value, one of the two infinities, or NaN. The operations of this section are the exact
  ones on finite values; the sign of zero is outside the model (a zero divisor is taken
  as +0). They keep what the control flow of the service and its special values depend
  on: every comparison with NaN is false, 0/0 is NaN, x/0 is an infinity, and NaN
  propagates through arithmetic. The rounding of each operation to a double, and the
  overflow to an infinity, are added in the next section; the calculation for a fixed
  period, whose property is one of numerical accuracy, is modelled with them.
\<close>

datatype jsnum = Num real | PosInf | NegInf | NaN

fun js_neg :: "jsnum \<Rightarrow> jsnum" where
  "js_neg (Num a) = Num (- a)"
| "js_neg PosInf = NegInf"
| "js_neg NegInf = PosInf"
| "js_neg NaN = NaN"

fun js_add :: "jsnum \<Rightarrow> jsnum \<Rightarrow> jsnum" where
  "js_add NaN _ = NaN"
| "js_add _ NaN = NaN"
| "js_add (Num a) (Num b) = Num (a + b)"
| "js_add PosInf NegInf = NaN"
| "js_add NegInf PosInf = NaN"
| "js_add PosInf _ = PosInf"
| "js_add _ PosInf = PosInf"
| "js_add NegInf _ = NegInf"
| "js_add _ NegInf = NegInf"

definition js_sub :: "jsnum \<Rightarrow> jsnum \<Rightarrow> jsnum" where
  "js_sub x y = js_add x (js_neg y)"

text \<open>The sign of a nonzero product or quotient with an infinite operand.\<close>

definition signed_inf :: "bool \<Rightarrow> jsnum" where
  "signed_inf positive = (if positive then PosInf else NegInf)"

fun js_mul :: "jsnum \<Rightarrow> jsnum \<Rightarrow> jsnum" where
  "js_mul NaN _ = NaN"
| "js_mul _ NaN = NaN"
| "js_mul (Num a) (Num b) = Num (a * b)"
| "js_mul (Num a) PosInf = (if a = 0 then NaN else signed_inf (0 < a))"
| "js_mul (Num a) NegInf = (if a = 0 then NaN else signed_inf (a < 0))"
| "js_mul PosInf (Num b) = (if b = 0 then NaN else signed_inf (0 < b))"
| "js_mul NegInf (Num b) = (if b = 0 then NaN else signed_inf (b < 0))"
| "js_mul PosInf PosInf = PosInf"
| "js_mul PosInf NegInf = NegInf"
| "js_mul NegInf PosInf = NegInf"
| "js_mul NegInf NegInf = PosInf"

fun js_div :: "jsnum \<Rightarrow> jsnum \<Rightarrow> jsnum" where
  "js_div NaN _ = NaN"
| "js_div _ NaN = NaN"
| "js_div (Num a) (Num b) =
     (if b \<noteq> 0 then Num (a / b)
      else if a = 0 then NaN
      else signed_inf (0 < a))"
| "js_div (Num a) PosInf = Num 0"
| "js_div (Num a) NegInf = Num 0"
| "js_div PosInf (Num b) = signed_inf (0 \<le> b)"
| "js_div NegInf (Num b) = signed_inf (b < 0)"
| "js_div PosInf PosInf = NaN"
| "js_div PosInf NegInf = NaN"
| "js_div NegInf PosInf = NaN"
| "js_div NegInf NegInf = NaN"

text \<open>
  \<open>Math.pow(x, n)\<close> for an integer exponent \<open>n\<close>: the result is 1 for \<open>n = 0\<close>
  whatever \<open>x\<close> is, NaN included.
\<close>

fun js_pow :: "jsnum \<Rightarrow> int \<Rightarrow> jsnum" where
  "js_pow x n =
     (if n = 0 then Num 1
      else case x of
        NaN \<Rightarrow> NaN
      | Num b \<Rightarrow>
          (if 0 < n then Num (b ^ nat n)
           else if b = 0 then PosInf
           else Num (1 / b ^ nat (- n)))
      | PosInf \<Rightarrow> (if 0 < n then PosInf else Num 0)
      | NegInf \<Rightarrow> (if 0 < n then signed_inf (even n) else Num 0))"

text \<open>\<open>Math.round\<close> rounds to the nearest integer, a half towards \<open>+\<infinity>\<close>.\<close>

fun js_round :: "jsnum \<Rightarrow> jsnum" where
  "js_round (Num a) = Num (of_int \<lfloor>a + 1 / 2\<rfloor>)"
| "js_round x = x"

fun js_lt :: "jsnum \<Rightarrow> jsnum \<Rightarrow> bool" where
  "js_lt NaN _ = False"
| "js_lt _ NaN = False"
| "js_lt (Num a) (Num b) = (a < b)"
| "js_lt NegInf NegInf = False"
| "js_lt NegInf _ = True"
| "js_lt _ NegInf = False"
| "js_lt PosInf _ = False"
| "js_lt _ PosInf = True"

definition js_gt :: "jsnum \<Rightarrow> jsnum \<Rightarrow> bool" where
  "js_gt x y = js_lt y x"

fun js_le :: "jsnum \<Rightarrow> jsnum \<Rightarrow> bool" where
  "js_le NaN _ = False"
| "js_le _ NaN = False"
| "js_le x y = (\<not> js_lt y x)"

text \<open>A JavaScript number is falsy when it is 0 or NaN.\<close>

fun js_falsy :: "jsnum \<Rightarrow> bool" where
  "js_falsy (Num a) = (a = 0)"
| "js_falsy NaN = True"
| "js_falsy _ = False"

fun is_finite :: "jsnum \<Rightarrow> bool" where
  "is_finite (Num _) = True"
| "is_finite _ = False"

section \<open>Rounding to doubles\<close>















section \<open>The interest service\<close>

text \<open>
  The state of the \<open>InterestService\<close> singleton. The constructor reads the annual rate
  from the environment; its argument is the parsed value of
  \<open>FUND_ANNUAL_INTEREST_RATE\<close> when that variable is set to a non-empty string, and the
  default 8.5 applies otherwise.
\<close>

record interest_service =
  annualRate :: jsnum
  compoundingPeriodsPerYear :: jsnum
  dailyRate :: jsnum

definition InterestService :: "jsnum option \<Rightarrow> interest_service" where
  "InterestService env_rate =
     (let annual = js_div (case env_rate of None \<Rightarrow> Num (17 / 2) | Some r \<Rightarrow> r) (Num 100);
          periods = Num 365
      in \<lparr> annualRate = annual,
           compoundingPeriodsPerYear = periods,
           dailyRate = js_div annual periods \<rparr>)"


text \<open>
  The result of \<open>calculateInterest\<close>. The short-circuit result for a principal that is
  not positive has no \<open>dailyRate\<close> and no \<open>effectiveRate\<close> property.
\<close>

record interest_calc =
  c_principal :: jsnum
  c_interest :: jsnum
  c_totalValue :: jsnum
  c_days :: int
  c_annualRate :: jsnum
  c_dailyRate :: "jsnum option"
  c_effectiveRate :: "jsnum option"

definition millisecondsPerDay :: int where
  "millisecondsPerDay = 1000 * 60 * 60 * 24"

text \<open>
  \<open>round_to x k d\<close> is the source's idiom \<open>Math.round(x * k) / d\<close>.
\<close>

definition round_to :: "jsnum \<Rightarrow> real \<Rightarrow> real \<Rightarrow> jsnum" where
  "round_to x k d = js_div (js_round (js_mul x (Num k))) (Num d)"

text \<open>
  \<open>calculateInterest(principal, startDate, endDate)\<close>. Dates are valid \<open>Date\<close> values,
  given as integer milliseconds since the epoch; the principal is the number that
  \<open>parseFloat\<close> yields. An exception is \<open>Inl\<close> of its message: the \<open>throw\<close> inside the
  \<open>try\<close> block is caught and thrown again with the prefix the \<open>catch\<close> block adds.
\<close>

definition calculateInterest ::
  "interest_service \<Rightarrow> jsnum \<Rightarrow> int \<Rightarrow> int \<Rightarrow> string + interest_calc" where
  "calculateInterest svc principalAmount startDate endDate =
     (if js_le principalAmount (Num 0) then
        Inr \<lparr> c_principal = Num 0, c_interest = Num 0, c_totalValue = Num 0, c_days = 0,
              c_annualRate = js_mul (annualRate svc) (Num 100),
              c_dailyRate = None, c_effectiveRate = None \<rparr>
      else
        let daysElapsed = (endDate - startDate) div millisecondsPerDay in
        if daysElapsed < 0 then
          Inl (''Failed to calculate interest: '' @ ''End date cannot be before start date'')
        else
          let timeInYears = js_div (Num (of_int daysElapsed)) (Num 365);
              compoundFactor = js_pow (js_add (Num 1) (dailyRate svc)) daysElapsed;
              totalValue = js_mul principalAmount compoundFactor;
              interestEarned = js_sub totalValue principalAmount
          in Inr \<lparr> c_principal = round_to principalAmount 100 100,
                   c_interest = round_to interestEarned 100 100,
                   c_totalValue = round_to totalValue 100 100,
                   c_days = daysElapsed,
                   c_annualRate = round_to (annualRate svc) 10000 100,
                   c_dailyRate = Some (round_to (dailyRate svc) 1000000 10000),
                   c_effectiveRate = Some (round_to
                      (js_div (js_sub (js_div totalValue principalAmount) (Num 1)) timeInYears)
                      10000 100) \<rparr>)"



record apy_result =
  apy_annualRate :: jsnum
  apy :: jsnum
  apy_periodsPerYear :: jsnum

definition calculateAPY :: "interest_service \<Rightarrow> apy_result" where
  "calculateAPY svc =
     (let a = js_sub (js_pow (js_add (Num 1) (dailyRate svc)) 365) (Num 1)
      in \<lparr> apy_annualRate = round_to (annualRate svc) 10000 100,
           apy = round_to a 10000 100,
           apy_periodsPerYear = compoundingPeriodsPerYear svc \<rparr>)"

text \<open>
  \<open>updateInterestRate(newRate)\<close> mutates the service, so the model returns the state
  after the call beside the outcome. The \<open>throw\<close> comes before the first assignment:
  on that path the state returned is the state given.
\<close>

record update_result =
  newAnnualRate :: jsnum
  newDailyRate :: jsnum
  u_apy :: jsnum

definition updateInterestRate ::
  "interest_service \<Rightarrow> jsnum \<Rightarrow> (string + update_result) \<times> interest_service" where
  "updateInterestRate svc rate =
     (if js_lt rate (Num 0) \<or> js_gt rate (Num 100) then
        (Inl ''Interest rate must be between 0 and 100'', svc)
      else
        let annual = js_div rate (Num 100);
            svc' = svc \<lparr> annualRate := annual,
                         dailyRate := js_div annual (compoundingPeriodsPerYear svc) \<rparr>
        in (Inr \<lparr> newAnnualRate = rate,
                  newDailyRate = round_to (dailyRate svc') 1000000 10000,
                  u_apy = apy (calculateAPY svc') \<rparr>, svc'))"


section \<open>The manager controller\<close>

text \<open>
  The controller's handlers work on three collections (users, tokens, multi-signature
  requests), on the token id held by the Hedera service and on the interest service
  singleton. Each handler is modelled as one atomic step on that state: the interleaving
  of two handlers at their \<open>await\<close> points is outside the model. Store operations are
  taken to succeed. A time is an integer number of milliseconds since the epoch, and the
  clock is read once per handler.
\<close>

type_synonym user_id = string
type_synonym time = int

datatype role = investor | manager | admin

record user =
  role :: role
  hederaAccountId :: "string option"
  email :: string

datatype request_type =
  token_creation | token_mint | token_burn | interest_distribution | rate_change

datatype request_status = pending | approved | rejected | executed

fun status_name :: "request_status \<Rightarrow> string" where
  "status_name pending = ''pending''"
| "status_name approved = ''approved''"
| "status_name rejected = ''rejected''"
| "status_name executed = ''executed''"

text \<open>
  An entry of \<open>signatures\<close>. The schema also declares an optional \<open>signature\<close> string,
  which the controller never sets.
\<close>

record signature =
  managerId :: user_id
  managerAccountId :: "string option"
  signedAt :: time

text \<open>
  \<open>requestData\<close> is a free-form object; the controller builds it in two shapes. A
  description is a fixed text or the template \<open>Change interest rate to ${newRate}%\<close>,
  kept with its number rather than rendered as text.
\<close>

datatype description_text = Text string | ChangeInterestRateTo jsnum

datatype request_data =
    TokenCreationData "string option" "string option" jsnum jsnum
  | RateChangeData jsnum jsnum

text \<open>
  The paths of \<open>multiSigRequestSchema\<close>. A document's \<open>_id\<close> is its position in the
  collection.
\<close>

record multisig_request =
  requestType :: request_type
  description :: description_text
  requestData :: request_data
  requiredSignatures :: nat
  signatures :: "signature list"
  status :: request_status
  executedAt :: "time option"
  executionTransactionId :: "string option"
  createdBy :: user_id
  expiresAt :: time

text \<open>
  A document in memory can carry properties that are not paths of its schema: the
  approval handler assigns \<open>metadata\<close>, which \<open>multiSigRequestSchema\<close> does not declare
  (\<open>transactionSchema\<close> does). Mongoose stores the schema's paths only, so \<open>save\<close>
  writes the document without that property, and a document read back has none.
\<close>

record multisig_document = multisig_request +
  metadata :: "string option"

definition loaded :: "multisig_request \<Rightarrow> multisig_document" where
  "loaded r =
     \<lparr> requestType = requestType r, description = description r,
       requestData = requestData r, requiredSignatures = requiredSignatures r,
       signatures = signatures r, status = status r, executedAt = executedAt r,
       executionTransactionId = executionTransactionId r, createdBy = createdBy r,
       expiresAt = expiresAt r, metadata = None \<rparr>"

definition persisted :: "multisig_document \<Rightarrow> multisig_request" where
  "persisted d =
     \<lparr> requestType = requestType d, description = description d,
       requestData = requestData d, requiredSignatures = requiredSignatures d,
       signatures = signatures d, status = status d, executedAt = executedAt d,
       executionTransactionId = executionTransactionId d, createdBy = createdBy d,
       expiresAt = expiresAt d \<rparr>"

record token =
  tokenId :: string
  name :: string
  symbol :: string
  decimals :: jsnum
  totalSupply :: jsnum
  treasuryAccountId :: string
  manager1AccountId :: string
  manager2AccountId :: string
  creationTransactionId :: string
  isActive :: bool

text \<open>
  What \<open>hederaService.createTokenWithMultiSig\<close> returns on success. The call goes to the
  external ledger: the handlers take it as a parameter, a function from the request data
  to either the message of the error it throws or its result.
\<close>

record token_result =
  tr_tokenId :: string
  tr_transactionId :: string
  tr_name :: string
  tr_symbol :: string
  tr_decimals :: jsnum
  tr_initialSupply :: jsnum
  tr_treasuryAccount :: string
  tr_managers :: "string \<times> string"

type_synonym ledger = "request_data \<Rightarrow> string + token_result"

record backend =
  users :: "user_id \<rightharpoonup> user"
  tokens :: "token list"
  requests :: "multisig_request list"
  hederaTokenId :: "string option"
  interestService :: interest_service

text \<open>
  The environment variables the controller reads. \<open>TOKEN_DECIMALS\<close> is the number
  \<open>parseInt\<close> yields for the variable (NaN when it is unset), and
  \<open>FUND_ANNUAL_INTEREST_RATE\<close> the number \<open>parseFloat\<close> yields when it is set to a
  non-empty string.
\<close>

record process_env =
  TOKEN_NAME :: "string option"
  TOKEN_SYMBOL :: "string option"
  TOKEN_DECIMALS :: jsnum
  FUND_ANNUAL_INTEREST_RATE :: "jsnum option"

datatype payload =
    InitiatedData nat request_type request_status nat nat time
  | TokenCreatedData string string string string string
  | RateInitiatedData nat jsnum request_status

text \<open>
  A response: HTTP status, \<open>success\<close>, \<open>message\<close>, \<open>data\<close> and \<open>error\<close>. The
  specification's error names correspond to the responses as follows:
  NotAuthorizedError is 403; NotFoundError is 404; InvalidStateError is 400 with
  ``Request is already ...''; ExpiredError is 400 with ``Request has expired'';
  DuplicateSignatureError is 400 with ``You have already signed this request'';
  ConflictError is 400 with ``Token already exists''; an exception that reaches the
  handler's outer \<open>catch\<close> is 500 with the exception's message in \<open>error\<close>.
\<close>

datatype response = Response nat bool string "payload option" "string option"

definition findById :: "multisig_request list \<Rightarrow> nat \<Rightarrow> multisig_document option" where
  "findById coll i = (if i < length coll then Some (loaded (coll ! i)) else None)"

text \<open>\<open>save\<close> of a document that was read from the collection.\<close>

definition save :: "nat \<Rightarrow> multisig_document \<Rightarrow> backend \<Rightarrow> backend" where
  "save i d s = s \<lparr> requests := (requests s) [i := persisted d] \<rparr>"

text \<open>\<open>save\<close> of a new document: it is inserted, and its \<open>_id\<close> is the next position.\<close>

definition save_new :: "multisig_document \<Rightarrow> backend \<Rightarrow> backend" where
  "save_new d s = s \<lparr> requests := requests s @ [persisted d] \<rparr>"

text \<open>\<open>a || b\<close> on optional text and on optional numbers.\<close>

definition text_or :: "string option \<Rightarrow> string option \<Rightarrow> string option" where
  "text_or a b = (case a of None \<Rightarrow> b | Some x \<Rightarrow> if x = [] then b else Some x)"

definition number_or :: "jsnum option \<Rightarrow> jsnum \<Rightarrow> jsnum" where
  "number_or a b = (case a of None \<Rightarrow> b | Some x \<Rightarrow> if js_falsy x then b else x)"

text \<open>
  The deadline is set with \<open>setHours(getHours() + 24)\<close>: 24 hours after the creation
  (a change of the server's local time offset within that day is not modelled).
\<close>

definition hours24 :: int where
  "hours24 = 24 * 60 * 60 * 1000"

record token_body =
  b_tokenName :: "string option"
  b_tokenSymbol :: "string option"
  b_decimals :: "jsnum option"
  b_initialSupply :: "jsnum option"

definition is_manager :: "backend \<Rightarrow> user_id \<Rightarrow> bool" where
  "is_manager s userId = (case users s userId of None \<Rightarrow> False | Some u \<Rightarrow> role u = manager)"

definition first_signature :: "backend \<Rightarrow> user_id \<Rightarrow> time \<Rightarrow> signature" where
  "first_signature s userId now =
     \<lparr> managerId = userId,
       managerAccountId = (case users s userId of None \<Rightarrow> None | Some u \<Rightarrow> hederaAccountId u),
       signedAt = now \<rparr>"

text \<open>\<open>initiateTokenCreation\<close>: POST /api/manager/initiate-token-creation.\<close>

definition initiateTokenCreation ::
  "process_env \<Rightarrow> time \<Rightarrow> user_id \<Rightarrow> token_body \<Rightarrow> backend \<Rightarrow> response \<times> backend" where
  "initiateTokenCreation env now userId body s =
     (if \<not> is_manager s userId then
        (Response 403 False ''Only managers can initiate token creation'' None None, s)
      else if tokens s \<noteq> [] then
        (Response 400 False ''Token already exists'' None None, s)
      else
        let multiSigRequest =
              \<lparr> requestType = token_creation,
                description = Text ''Create Pezzy Money Market Token'',
                requestData = TokenCreationData
                  (text_or (b_tokenName body) (TOKEN_NAME env))
                  (text_or (b_tokenSymbol body) (TOKEN_SYMBOL env))
                  (number_or (b_decimals body) (TOKEN_DECIMALS env))
                  (number_or (b_initialSupply body) (Num 0)),
                requiredSignatures = 2,
                signatures = [first_signature s userId now],
                status = pending,
                executedAt = None,
                executionTransactionId = None,
                createdBy = userId,
                expiresAt = now + hours24,
                metadata = None \<rparr>
        in (Response 200 True ''Token creation initiated. Awaiting second manager approval.''
              (Some (InitiatedData (length (requests s)) (requestType multiSigRequest)
                       (status multiSigRequest) 1 2 (expiresAt multiSigRequest))) None,
            save_new multiSigRequest s))"

text \<open>
  \<open>updateInterestRate\<close> of the controller: POST /api/manager/update-interest-rate. It
  opens a \<open>rate_change\<close> request and does not touch the interest service.
\<close>

definition updateInterestRateRequest ::
  "process_env \<Rightarrow> time \<Rightarrow> user_id \<Rightarrow> jsnum option \<Rightarrow> backend \<Rightarrow> response \<times> backend" where
  "updateInterestRateRequest env now userId newRate s =
     (if \<not> is_manager s userId then
        (Response 403 False ''Only managers can update interest rate'' None None, s)
      else case newRate of
        None \<Rightarrow>
          (Response 400 False ''Invalid interest rate. Must be between 0 and 100.'' None None, s)
      | Some rate \<Rightarrow>
          if js_falsy rate \<or> js_lt rate (Num 0) \<or> js_gt rate (Num 100) then
            (Response 400 False ''Invalid interest rate. Must be between 0 and 100.'' None None, s)
          else
            let multiSigRequest =
                  \<lparr> requestType = rate_change,
                    description = ChangeInterestRateTo rate,
                    requestData = RateChangeData rate
                      (case FUND_ANNUAL_INTEREST_RATE env of None \<Rightarrow> Num (17 / 2) | Some r \<Rightarrow> r),
                    requiredSignatures = 2,
                    signatures = [first_signature s userId now],
                    status = pending,
                    executedAt = None,
                    executionTransactionId = None,
                    createdBy = userId,
                    expiresAt = now + hours24,
                    metadata = None \<rparr>
            in (Response 200 True
                  ''Interest rate change initiated. Awaiting second manager approval.''
                  (Some (RateInitiatedData (length (requests s)) rate pending)) None,
                save_new multiSigRequest s))"

text \<open>
  \<open>approveTokenCreation\<close>: POST /api/manager/approve-token-creation. The third component
  of the result lists the calls made to \<open>createTokenWithMultiSig\<close>, each with its argument.
\<close>

definition token_of :: "token_result \<Rightarrow> token" where
  "token_of tokenResult =
     \<lparr> tokenId = tr_tokenId tokenResult,
       name = tr_name tokenResult,
       symbol = tr_symbol tokenResult,
       decimals = tr_decimals tokenResult,
       totalSupply = tr_initialSupply tokenResult,
       treasuryAccountId = tr_treasuryAccount tokenResult,
       manager1AccountId = fst (tr_managers tokenResult),
       manager2AccountId = snd (tr_managers tokenResult),
       creationTransactionId = tr_transactionId tokenResult,
       isActive = True \<rparr>"

definition approveTokenCreation ::
  "ledger \<Rightarrow> time \<Rightarrow> user_id \<Rightarrow> nat \<Rightarrow> backend \<Rightarrow> response \<times> backend \<times> request_data list" where
  "approveTokenCreation createTokenWithMultiSig now userId requestId s =
     (if \<not> is_manager s userId then
        (Response 403 False ''Only managers can approve token creation'' None None, s, [])
      else case findById (requests s) requestId of
        None \<Rightarrow> (Response 404 False ''Request not found'' None None, s, [])
      | Some multiSigRequest \<Rightarrow>
          if status multiSigRequest \<noteq> pending then
            (Response 400 False (''Request is already '' @ status_name (status multiSigRequest))
               None None, s, [])
          else if now > expiresAt multiSigRequest then
            (Response 400 False ''Request has expired'' None None,
             save requestId (multiSigRequest \<lparr> status := rejected \<rparr>) s, [])
          else if list_ex (\<lambda>sig. managerId sig = userId) (signatures multiSigRequest) then
            (Response 400 False ''You have already signed this request'' None None, s, [])
          else
            let signed = multiSigRequest
                  \<lparr> signatures := signatures multiSigRequest @ [first_signature s userId now],
                    status := approved \<rparr>;
                s1 = save requestId signed s
            in case createTokenWithMultiSig (requestData signed) of
                 Inr tokenResult \<Rightarrow>
                   let s2 = s1 \<lparr> tokens := tokens s1 @ [token_of tokenResult] \<rparr>;
                       completed = signed
                         \<lparr> status := executed,
                           executedAt := Some now,
                           executionTransactionId := Some (tr_transactionId tokenResult) \<rparr>;
                       s3 = save requestId completed s2;
                       s4 = s3 \<lparr> hederaTokenId := Some (tr_tokenId tokenResult) \<rparr>
                   in (Response 200 True ''Token creation approved and executed successfully''
                         (Some (TokenCreatedData (tr_tokenId tokenResult) (tr_name tokenResult)
                            (tr_symbol tokenResult) (tr_transactionId tokenResult)
                            (tr_treasuryAccount tokenResult))) None,
                       s4, [requestData signed])
               | Inl error_message \<Rightarrow>
                   let failed = signed \<lparr> status := rejected, metadata := Some error_message \<rparr>;
                       s2 = save requestId failed s1
                   in (Response 500 False ''Failed to approve token creation'' None
                         (Some error_message),
                       s2, [requestData signed]))"

subsection \<open>Runs of the controller\<close>

text \<open>
  A request to the API, with what its handler reads from outside: the clock and, for an
  approval, the outcome of the ledger call.
\<close>

datatype api_call =
    InitiateTokenCreation time user_id token_body
  | UpdateInterestRate time user_id "jsnum option"
  | ApproveTokenCreation ledger time user_id nat

fun handle :: "process_env \<Rightarrow> api_call \<Rightarrow> backend \<Rightarrow> response \<times> backend \<times> request_data list" where
  "handle env (InitiateTokenCreation now userId body) s =
     (let (res, s') = initiateTokenCreation env now userId body s in (res, s', []))"
| "handle env (UpdateInterestRate now userId newRate) s =
     (let (res, s') = updateInterestRateRequest env now userId newRate s in (res, s', []))"
| "handle env (ApproveTokenCreation createTokenWithMultiSig now userId requestId) s =
     approveTokenCreation createTokenWithMultiSig now userId requestId s"

text \<open>
  The state after a sequence of requests handled one after the other: each handler runs
  to its end before the next one starts.
\<close>

fun run :: "process_env \<Rightarrow> api_call list \<Rightarrow> backend \<Rightarrow> backend" where
  "run env [] s = s"
| "run env (c # cs) s = run env cs (fst (snd (handle env c s)))"

text \<open>
  The number of ledger calls the approvals of request \<open>rid\<close> make during such a
  sequence, in which no two handlers overlap.
\<close>

fun approves :: "nat \<Rightarrow> api_call \<Rightarrow> bool" where
  "approves rid (ApproveTokenCreation _ _ _ requestId) = (requestId = rid)"
| "approves rid _ = False"

fun executions :: "process_env \<Rightarrow> nat \<Rightarrow> api_call list \<Rightarrow> backend \<Rightarrow> nat" where
  "executions env rid [] s = 0"
| "executions env rid (c # cs) s =
     (let (res, s', calls) = handle env c s
      in (if approves rid c then length calls else 0) + executions env rid cs s')"

subsection \<open>Approvals that overlap\<close>

text \<open>
  \<open>approveTokenCreation\<close> is an \<open>async\<close> function and takes no lock: at each \<open>await\<close> the
  server may go on with another request, and between two \<open>await\<close>s the handler runs
  alone. The handler is cut here into three steps, each of which runs alone: the two
  reads, of the user and of the request (\<open>approve_read\<close>); the checks made on the
  document that was read, the push of the signature and the first \<open>save\<close>
  (\<open>approve_sign\<close>); the ledger call, the insertion of the Token, the second \<open>save\<close> and
  the response (\<open>approve_execute\<close>). An approval in progress stands between two of
  these steps and holds the user and the copy of the request it has read.
\<close>

datatype approval =
    Started
  | Loaded user multisig_document
  | Signed multisig_document
  | Answered response

text \<open>
  \<open>save\<close> on a document that was read sends the changes made to that copy since it was
  read or last saved, and nothing else: the elements pushed to \<open>signatures\<close> are appended
  to the stored array, whatever it holds by then, and a path that was assigned a new
  value is set to it. \<open>written before doc stored\<close> is the stored request after the
  \<open>save\<close> of the copy \<open>doc\<close> that was \<open>before\<close> when it was read or last saved.
  \<open>metadata\<close> is not a path of the schema and is never written.
\<close>

definition written :: "multisig_document \<Rightarrow> multisig_document \<Rightarrow> multisig_request \<Rightarrow> multisig_request" where
  "written before doc stored =
     stored
       \<lparr> signatures := signatures stored @ drop (length (signatures before)) (signatures doc),
         status := (if status doc = status before then status stored else status doc),
         executedAt :=
           (if executedAt doc = executedAt before then executedAt stored else executedAt doc),
         executionTransactionId :=
           (if executionTransactionId doc = executionTransactionId before
            then executionTransactionId stored else executionTransactionId doc) \<rparr>"

definition save_changes :: "nat \<Rightarrow> multisig_document \<Rightarrow> multisig_document \<Rightarrow> backend \<Rightarrow> backend" where
  "save_changes i before doc s =
     s \<lparr> requests := (requests s) [i := written before doc (requests s ! i)] \<rparr>"

text \<open>The three steps, with the checks and the messages of the handler.\<close>

definition approve_read :: "backend \<Rightarrow> user_id \<Rightarrow> nat \<Rightarrow> approval" where
  "approve_read s userId requestId =
     (case users s userId of
        None \<Rightarrow> Answered (Response 403 False ''Only managers can approve token creation'' None None)
      | Some user \<Rightarrow>
          if role user \<noteq> manager then
            Answered (Response 403 False ''Only managers can approve token creation'' None None)
          else case findById (requests s) requestId of
            None \<Rightarrow> Answered (Response 404 False ''Request not found'' None None)
          | Some multiSigRequest \<Rightarrow> Loaded user multiSigRequest)"

definition approve_sign ::
  "time \<Rightarrow> user_id \<Rightarrow> nat \<Rightarrow> user \<Rightarrow> multisig_document \<Rightarrow> backend \<Rightarrow> approval \<times> backend" where
  "approve_sign now userId requestId user multiSigRequest s =
     (if status multiSigRequest \<noteq> pending then
        (Answered (Response 400 False
           (''Request is already '' @ status_name (status multiSigRequest)) None None), s)
      else if now > expiresAt multiSigRequest then
        (Answered (Response 400 False ''Request has expired'' None None),
         save_changes requestId multiSigRequest (multiSigRequest \<lparr> status := rejected \<rparr>) s)
      else if list_ex (\<lambda>sig. managerId sig = userId) (signatures multiSigRequest) then
        (Answered (Response 400 False ''You have already signed this request'' None None), s)
      else
        let signed = multiSigRequest
              \<lparr> signatures := signatures multiSigRequest @
                   [\<lparr> managerId = userId, managerAccountId = hederaAccountId user,
                      signedAt = now \<rparr>],
                status := approved \<rparr>
        in (Signed signed, save_changes requestId multiSigRequest signed s))"

definition approve_execute ::
  "ledger \<Rightarrow> time \<Rightarrow> nat \<Rightarrow> multisig_document \<Rightarrow> backend
     \<Rightarrow> approval \<times> backend \<times> request_data list" where
  "approve_execute createTokenWithMultiSig now requestId signed s1 =
     (case createTokenWithMultiSig (requestData signed) of
        Inr tokenResult \<Rightarrow>
          let s2 = s1 \<lparr> tokens := tokens s1 @ [token_of tokenResult] \<rparr>;
              completed = signed
                \<lparr> status := executed,
                  executedAt := Some now,
                  executionTransactionId := Some (tr_transactionId tokenResult) \<rparr>;
              s3 = save_changes requestId signed completed s2;
              s4 = s3 \<lparr> hederaTokenId := Some (tr_tokenId tokenResult) \<rparr>
          in (Answered (Response 200 True ''Token creation approved and executed successfully''
                (Some (TokenCreatedData (tr_tokenId tokenResult) (tr_name tokenResult)
                   (tr_symbol tokenResult) (tr_transactionId tokenResult)
                   (tr_treasuryAccount tokenResult))) None),
              s4, [requestData signed])
      | Inl error_message \<Rightarrow>
          let failed = signed \<lparr> status := rejected, metadata := Some error_message \<rparr>;
              s2 = save_changes requestId signed failed s1
          in (Answered (Response 500 False ''Failed to approve token creation'' None
                (Some error_message)),
              s2, [requestData signed]))"

text \<open>
  An approval is the request as the handler receives it, with the outcome of its ledger
  call and the time on its clock. \<open>advance\<close> takes the next step of an approval in
  progress. \<open>interleaved schedule calls s made\<close> takes the steps of the approvals
  \<open>calls\<close> in the order the schedule gives, each entry of the schedule naming the
  approval that takes its next step; \<open>made\<close> collects the ledger calls.
\<close>

type_synonym approve_call = "ledger \<times> time \<times> user_id \<times> nat"

fun advance :: "approve_call \<Rightarrow> approval \<Rightarrow> backend \<Rightarrow> approval \<times> backend \<times> request_data list" where
  "advance (L, now, userId, requestId) Started s = (approve_read s userId requestId, s, [])"
| "advance (L, now, userId, requestId) (Loaded user multiSigRequest) s =
     (let (a, s') = approve_sign now userId requestId user multiSigRequest s in (a, s', []))"
| "advance (L, now, userId, requestId) (Signed signed) s =
     approve_execute L now requestId signed s"
| "advance c (Answered res) s = (Answered res, s, [])"

fun interleaved ::
  "nat list \<Rightarrow> (approve_call \<times> approval) list \<Rightarrow> backend \<Rightarrow> request_data list
     \<Rightarrow> (approve_call \<times> approval) list \<times> backend \<times> request_data list" where
  "interleaved [] calls s made = (calls, s, made)"
| "interleaved (i # schedule) calls s made =
     (if i < length calls then
        (let (c, a) = calls ! i;
             (a', s', more) = advance c a s
         in interleaved schedule (calls [i := (c, a')]) s' (made @ more))
      else interleaved schedule calls s made)"

subsection \<open>Notions used to state the properties\<close>

text \<open>The identities that have signed a request, in signing order.\<close>

definition signers :: "multisig_request \<Rightarrow> user_id list" where
  "signers r = map managerId (signatures r)"

text \<open>
  An approval that passes every check of the handler: the caller is a manager, the
  request exists, is pending and has not expired, and the caller has not signed it.
\<close>

definition may_approve :: "backend \<Rightarrow> time \<Rightarrow> user_id \<Rightarrow> nat \<Rightarrow> bool" where
  "may_approve s now userId rid \<longleftrightarrow>
     is_manager s userId \<and> rid < length (requests s)
     \<and> status (requests s ! rid) = pending
     \<and> \<not> now > expiresAt (requests s ! rid)
     \<and> userId \<notin> set (signers (requests s ! rid))"

text \<open>
  What holds of every stored request in a state the handlers have produced: its signers
  are pairwise distinct managers, one while it is pending and two once it was approved.
\<close>

definition request_ok :: "backend \<Rightarrow> multisig_request \<Rightarrow> bool" where
  "request_ok s r \<longleftrightarrow>
     distinct (signers r)
     \<and> list_all (is_manager s) (signers r)
     \<and> (if status r = pending then length (signatures r) = 1
        else if status r = rejected then length (signatures r) = 1 \<or> length (signatures r) = 2
        else length (signatures r) = 2)"

definition requests_ok :: "backend \<Rightarrow> bool" where
  "requests_ok s = list_all (request_ok s) (requests s)"

text \<open>A request that exists and has left the pending state.\<close>

definition settled :: "backend \<Rightarrow> nat \<Rightarrow> bool" where
  "settled s rid \<longleftrightarrow> rid < length (requests s) \<and> status (requests s ! rid) \<noteq> pending"

text \<open>The same state with the type of request \<open>rid\<close> replaced.\<close>

definition retyped :: "nat \<Rightarrow> request_type \<Rightarrow> backend \<Rightarrow> backend" where
  "retyped rid ty s =
     s \<lparr> requests := (requests s) [rid := (requests s ! rid) \<lparr> requestType := ty \<rparr>] \<rparr>"

subsection \<open>A small installation\<close>

text \<open>
  Two managers and one investor, no token, no request, the default interest rate; a
  ledger that answers every creation with the token of a given id, and one that fails
  with a given message.
\<close>

definition office_users :: "user_id \<rightharpoonup> user" where
  "office_users =
     [''m1'' \<mapsto> \<lparr> role = manager, hederaAccountId = Some ''0.0.1001'', email = ''m1@pezzy.rw'' \<rparr>,
      ''m2'' \<mapsto> \<lparr> role = manager, hederaAccountId = Some ''0.0.1002'', email = ''m2@pezzy.rw'' \<rparr>,
      ''u1'' \<mapsto> \<lparr> role = investor, hederaAccountId = None, email = ''u1@pezzy.rw'' \<rparr>]"

definition office :: backend where
  "office = \<lparr> users = office_users, tokens = [], requests = [], hederaTokenId = None,
              interestService = InterestService None \<rparr>"

definition office_env :: process_env where
  "office_env = \<lparr> TOKEN_NAME = Some ''Pezzy Money Market Token'', TOKEN_SYMBOL = Some ''PMKT'',
                  TOKEN_DECIMALS = Num 2, FUND_ANNUAL_INTEREST_RATE = None \<rparr>"

definition no_body :: token_body where
  "no_body = \<lparr> b_tokenName = None, b_tokenSymbol = None, b_decimals = None,
               b_initialSupply = None \<rparr>"

definition ledger_creates :: "string \<Rightarrow> ledger" where
  "ledger_creates tid = (\<lambda>tokenConfig. Inr
     \<lparr> tr_tokenId = tid, tr_transactionId = ''tx-'' @ tid,
       tr_name = ''Pezzy Money Market Token'', tr_symbol = ''PMKT'', tr_decimals = Num 2,
       tr_initialSupply = Num 0, tr_treasuryAccount = ''0.0.1000'',
       tr_managers = (''0.0.1001'', ''0.0.1002'') \<rparr>)"

definition ledger_fails :: "string \<Rightarrow> ledger" where
  "ledger_fails msg = (\<lambda>tokenConfig. Inl (''Failed to create token: '' @ msg))"

text \<open>
  The installation after manager \<open>m1\<close> has opened a token creation request at time 0,
  and after manager \<open>m2\<close> has approved it at time 1000 with a ledger that creates the
  token \<open>0.0.5005\<close>.
\<close>

definition opened :: backend where
  "opened = snd (initiateTokenCreation office_env 0 ''m1'' no_body office)"

definition first_request :: multisig_request where
  "first_request =
     \<lparr> requestType = token_creation,
       description = Text ''Create Pezzy Money Market Token'',
       requestData = TokenCreationData (Some ''Pezzy Money Market Token'') (Some ''PMKT'')
                       (Num 2) (Num 0),
       requiredSignatures = 2,
       signatures = [\<lparr> managerId = ''m1'', managerAccountId = Some ''0.0.1001'', signedAt = 0 \<rparr>],
       status = pending, executedAt = None, executionTransactionId = None,
       createdBy = ''m1'', expiresAt = 86400000 \<rparr>"

definition m2_signature :: signature where
  "m2_signature = \<lparr> managerId = ''m2'', managerAccountId = Some ''0.0.1002'', signedAt = 1000 \<rparr>"

definition created :: backend where
  "created = fst (snd (approveTokenCreation (ledger_creates ''0.0.5005'') 1000 ''m2'' 0 opened))"

definition executed_request :: multisig_request where
  "executed_request =
     first_request \<lparr> signatures := signatures first_request @ [m2_signature],
                     status := executed, executedAt := Some 1000,
                     executionTransactionId := Some ''tx-0.0.5005'' \<rparr>"

text \<open>
  The installation after manager \<open>m1\<close> has asked for an interest rate of 5 percent at
  time 0.
\<close>

definition rate_opened :: backend where
  "rate_opened = snd (updateInterestRateRequest office_env 0 ''m1'' (Some (Num 5)) office)"

definition rate_request :: multisig_request where
  "rate_request =
     \<lparr> requestType = rate_change,
       description = ChangeInterestRateTo (Num 5),
       requestData = RateChangeData (Num 5) (Num (17 / 2)),
       requiredSignatures = 2,
       signatures = [\<lparr> managerId = ''m1'', managerAccountId = Some ''0.0.1001'', signedAt = 0 \<rparr>],
       status = pending, executedAt = None, executionTransactionId = None,
       createdBy = ''m1'', expiresAt = 86400000 \<rparr>"

text \<open>
  Two approvals of the request opened by \<open>m1\<close>, sent at times 1000 and 1001: both by
  manager \<open>m2\<close>, or one by \<open>m2\<close> and one by a third manager \<open>m3\<close>, registered in
  \<open>staffed\<close>. The ledger answers the two creations with the tokens \<open>0.0.5005\<close> and
  \<open>0.0.5006\<close>. In the schedule \<open>alternating\<close> the two approvals take their steps in
  turn; \<open>first_signed\<close>, \<open>both_signed\<close> and \<open>first_answered\<close> are that schedule up to
  the first \<open>save\<close> of the first approval, up to the first \<open>save\<close> of the second, and up
  to the response of the first.
\<close>

definition m2_user :: user where
  "m2_user = \<lparr> role = manager, hederaAccountId = Some ''0.0.1002'', email = ''m2@pezzy.rw'' \<rparr>"

definition m3_user :: user where
  "m3_user = \<lparr> role = manager, hederaAccountId = Some ''0.0.1003'', email = ''m3@pezzy.rw'' \<rparr>"

definition staffed :: backend where
  "staffed = opened \<lparr> users := (users opened) (''m3'' \<mapsto> m3_user) \<rparr>"

definition m2_again :: signature where
  "m2_again = \<lparr> managerId = ''m2'', managerAccountId = Some ''0.0.1002'', signedAt = 1001 \<rparr>"

definition m3_signature :: signature where
  "m3_signature = \<lparr> managerId = ''m3'', managerAccountId = Some ''0.0.1003'', signedAt = 1001 \<rparr>"

definition token_5005 :: token where
  "token_5005 = token_of (projr (ledger_creates ''0.0.5005'' (requestData first_request)))"

definition token_5006 :: token where
  "token_5006 = token_of (projr (ledger_creates ''0.0.5006'' (requestData first_request)))"

definition approvals_by_m2 :: "(approve_call \<times> approval) list" where
  "approvals_by_m2 =
     [((ledger_creates ''0.0.5005'', 1000, ''m2'', 0), Started),
      ((ledger_creates ''0.0.5006'', 1001, ''m2'', 0), Started)]"

definition approvals_by_m2_and_m3 :: "(approve_call \<times> approval) list" where
  "approvals_by_m2_and_m3 =
     [((ledger_creates ''0.0.5005'', 1000, ''m2'', 0), Started),
      ((ledger_creates ''0.0.5006'', 1001, ''m3'', 0), Started)]"

definition alternating :: "nat list" where
  "alternating = [0, 1, 0, 1, 0, 1]"

definition first_signed :: "nat list" where
  "first_signed = [0, 1, 0]"

definition both_signed :: "nat list" where
  "both_signed = [0, 1, 0, 1]"

definition first_answered :: "nat list" where
  "first_answered = [0, 1, 0, 1, 0]"

section \<open>Properties of the interest service\<close>

subsection \<open>Arithmetic used below\<close>




lemma default_service:
  "InterestService None =
     \<lparr> annualRate = Num (17 / 200), compoundingPeriodsPerYear = Num 365,
       dailyRate = Num (17 / 73000) \<rparr>"
  by (simp add: InterestService_def)

subsection \<open>Accuracy of the rounded operations\<close>















subsection \<open>Compounding over a fixed period\<close>










subsection \<open>Updating the rate\<close>

text \<open>
  For every finite number and for the two infinities the check of \<open>updateInterestRate\<close>
  does what its message says: outside \<open>[0, 100]\<close> it throws and leaves \<open>annualRate\<close> and
  \<open>dailyRate\<close> as they were; inside, the call succeeds and the state then holds
  \<open>annualRate = newRate / 100\<close> and \<open>dailyRate = (newRate / 100) / 365\<close>, which every
  later calculation reads. The number of periods per year is 365 in every state the
  constructor produces, and no method assigns it.
\<close>

lemma updateInterestRate_validates:
  assumes "compoundingPeriodsPerYear svc = Num 365"
  shows "(\<not> (0 \<le> r \<and> r \<le> 100) \<longrightarrow>
            updateInterestRate svc (Num r) = (Inl ''Interest rate must be between 0 and 100'', svc))
       \<and> (0 \<le> r \<and> r \<le> 100 \<longrightarrow>
            (\<exists>res. updateInterestRate svc (Num r) =
               (Inr res, svc \<lparr> annualRate := Num (r / 100), dailyRate := Num (r / 100 / 365) \<rparr>)))"
  using assms by (auto simp add: updateInterestRate_def js_gt_def Let_def)

lemma updateInterestRate_infinite:
  "updateInterestRate svc PosInf = (Inl ''Interest rate must be between 0 and 100'', svc)"
  "updateInterestRate svc NegInf = (Inl ''Interest rate must be between 0 and 100'', svc)"
  by (simp_all add: updateInterestRate_def js_gt_def)

lemma updateInterestRate_NaN:
  "snd (updateInterestRate svc NaN) = svc \<lparr> annualRate := NaN, dailyRate := NaN \<rparr>"
  by (simp add: updateInterestRate_def js_gt_def Let_def)

text \<open>
  Claim C6 does not hold of the code for NaN, the number that \<open>parseFloat\<close> yields for an
  argument that is not numeric. NaN is not within \<open>[0, 100]\<close>, but both comparisons of
  the check \<open>rate < 0 || rate > 100\<close> are false for it: the call does not throw, it
  returns a result, and NaN replaces the annual rate of 8.5 percent and the daily rate
  that were configured.
\<close>

theorem updateInterestRate_accepts_NaN:
  "\<not> js_le (Num 0) NaN
   \<and> annualRate (InterestService None) = Num (17 / 200)
   \<and> dailyRate (InterestService None) = Num (17 / 73000)
   \<and> updateInterestRate (InterestService None) NaN =
       (Inr \<lparr> newAnnualRate = NaN, newDailyRate = NaN, u_apy = NaN \<rparr>,
        \<lparr> annualRate = NaN, compoundingPeriodsPerYear = Num 365, dailyRate = NaN \<rparr>)"
  by (simp add: updateInterestRate_def js_gt_def Let_def default_service calculateAPY_def
      round_to_def js_sub_def)

subsection \<open>The date range check\<close>





subsection \<open>The effective rate at zero elapsed days\<close>

text \<open>
  When no full day has elapsed, \<open>timeInYears\<close> is 0 and the compound factor is 1, so the
  effective rate is computed as 0/0.
\<close>

lemma zero_days_effective_rate:
  assumes "0 < p" and "(endDate - startDate) div millisecondsPerDay = 0"
  shows "\<exists>res. calculateInterest svc (Num p) startDate endDate = Inr res
           \<and> c_effectiveRate res = Some NaN"
  using assms by (simp add: calculateInterest_def Let_def round_to_def js_sub_def)

text \<open>
  Claim C8 asks that \<open>effectiveRate\<close> is a finite number when \<open>endDate = startDate\<close> and
  \<open>principal > 0\<close>. The function has no special case for zero days: for
  \<open>principal = 1000\<close> and equal dates it returns \<open>effectiveRate = NaN\<close>.
\<close>

theorem effective_rate_nan_at_zero_days:
  "\<exists>res. calculateInterest (InterestService None) (Num 1000) 0 0 = Inr res
      \<and> c_effectiveRate res = Some NaN \<and> \<not> is_finite NaN"
  by (simp add: calculateInterest_def Let_def round_to_def js_sub_def)

section \<open>Properties of the manager controller\<close>

subsection \<open>Documents and the store\<close>

lemma persisted_loaded [simp]: "persisted (loaded r) = r"
  by (simp add: persisted_def loaded_def)

lemma persisted_update:
  "persisted (d \<lparr> status := st \<rparr>) = (persisted d) \<lparr> status := st \<rparr>"
  "persisted (d \<lparr> signatures := sigs \<rparr>) = (persisted d) \<lparr> signatures := sigs \<rparr>"
  "persisted (d \<lparr> executedAt := ea \<rparr>) = (persisted d) \<lparr> executedAt := ea \<rparr>"
  "persisted (d \<lparr> executionTransactionId := tx \<rparr>)
     = (persisted d) \<lparr> executionTransactionId := tx \<rparr>"
  "persisted (d \<lparr> metadata := m \<rparr>) = persisted d"
  by (simp_all add: persisted_def)

lemma loaded_fields [simp]:
  "status (loaded r) = status r"
  "signatures (loaded r) = signatures r"
  "expiresAt (loaded r) = expiresAt r"
  "requestData (loaded r) = requestData r"
  by (simp_all add: loaded_def)

lemma list_ex_signers:
  "list_ex (\<lambda>sig. managerId sig = userId) (signatures r) \<longleftrightarrow> userId \<in> set (signers r)"
  by (auto simp add: list_ex_iff signers_def)

subsection \<open>The seven outcomes of an approval\<close>

lemma approve_not_manager:
  assumes "\<not> is_manager s userId"
  shows "approveTokenCreation L now userId rid s =
           (Response 403 False ''Only managers can approve token creation'' None None, s, [])"
  using assms by (simp add: approveTokenCreation_def)

lemma approve_not_found:
  assumes "is_manager s userId" and "\<not> rid < length (requests s)"
  shows "approveTokenCreation L now userId rid s =
           (Response 404 False ''Request not found'' None None, s, [])"
  using assms by (simp add: approveTokenCreation_def findById_def)

lemma approve_not_pending:
  assumes "is_manager s userId" and "rid < length (requests s)"
    and "status (requests s ! rid) \<noteq> pending"
  shows "approveTokenCreation L now userId rid s =
           (Response 400 False (''Request is already '' @ status_name (status (requests s ! rid)))
              None None, s, [])"
  using assms by (simp add: approveTokenCreation_def findById_def)

lemma approve_expired:
  assumes "is_manager s userId" and "rid < length (requests s)"
    and "status (requests s ! rid) = pending"
    and "now > expiresAt (requests s ! rid)"
  shows "approveTokenCreation L now userId rid s =
           (Response 400 False ''Request has expired'' None None,
            s \<lparr> requests := (requests s) [rid := (requests s ! rid) \<lparr> status := rejected \<rparr>] \<rparr>, [])"
  using assms by (simp add: approveTokenCreation_def findById_def save_def persisted_update)

lemma approve_duplicate:
  assumes "is_manager s userId" and "rid < length (requests s)"
    and "status (requests s ! rid) = pending"
    and "\<not> now > expiresAt (requests s ! rid)"
    and "userId \<in> set (signers (requests s ! rid))"
  shows "approveTokenCreation L now userId rid s =
           (Response 400 False ''You have already signed this request'' None None, s, [])"
  using assms by (simp add: approveTokenCreation_def findById_def list_ex_signers)

lemma approve_executed:
  assumes "may_approve s now userId rid"
    and "L (requestData (requests s ! rid)) = Inr tr"
  shows "approveTokenCreation L now userId rid s =
           (Response 200 True ''Token creation approved and executed successfully''
              (Some (TokenCreatedData (tr_tokenId tr) (tr_name tr) (tr_symbol tr)
                 (tr_transactionId tr) (tr_treasuryAccount tr))) None,
            s \<lparr> requests := (requests s) [rid := (requests s ! rid)
                    \<lparr> signatures := signatures (requests s ! rid) @ [first_signature s userId now],
                      status := executed, executedAt := Some now,
                      executionTransactionId := Some (tr_transactionId tr) \<rparr>],
                tokens := tokens s @ [token_of tr],
                hederaTokenId := Some (tr_tokenId tr) \<rparr>,
            [requestData (requests s ! rid)])"
  using assms
  by (simp add: may_approve_def approveTokenCreation_def findById_def list_ex_signers
      save_def Let_def persisted_update)

lemma approve_ledger_failed:
  assumes "may_approve s now userId rid"
    and "L (requestData (requests s ! rid)) = Inl msg"
  shows "approveTokenCreation L now userId rid s =
           (Response 500 False ''Failed to approve token creation'' None (Some msg),
            s \<lparr> requests := (requests s) [rid := (requests s ! rid)
                    \<lparr> signatures := signatures (requests s ! rid) @ [first_signature s userId now],
                      status := rejected \<rparr>] \<rparr>,
            [requestData (requests s ! rid)])"
  using assms
  by (simp add: may_approve_def approveTokenCreation_def findById_def list_ex_signers
      save_def Let_def persisted_update)

lemma approve_cases:
  obtains (forbidden) "\<not> is_manager s userId"
  | (missing) "is_manager s userId" "\<not> rid < length (requests s)"
  | (settled) "is_manager s userId" "rid < length (requests s)"
      "status (requests s ! rid) \<noteq> pending"
  | (expired) "is_manager s userId" "rid < length (requests s)"
      "status (requests s ! rid) = pending" "now > expiresAt (requests s ! rid)"
  | (duplicate) "is_manager s userId" "rid < length (requests s)"
      "status (requests s ! rid) = pending" "\<not> now > expiresAt (requests s ! rid)"
      "userId \<in> set (signers (requests s ! rid))"
  | (executed) tr where "may_approve s now userId rid"
      "L (requestData (requests s ! rid)) = Inr tr"
  | (failed) msg where "may_approve s now userId rid"
      "L (requestData (requests s ! rid)) = Inl msg"
  unfolding may_approve_def by (cases "L (requestData (requests s ! rid))") blast+

subsection \<open>Opening a request\<close>

lemma initiate_refused:
  assumes "\<not> is_manager s userId \<or> tokens s \<noteq> []"
  shows "snd (initiateTokenCreation env now userId body s) = s"
  using assms by (auto simp add: initiateTokenCreation_def)

lemma initiate_accepted:
  assumes "is_manager s userId" and "tokens s = []"
  shows "\<exists>r. snd (initiateTokenCreation env now userId body s)
               = s \<lparr> requests := requests s @ [r] \<rparr>
           \<and> signatures r = [first_signature s userId now] \<and> status r = pending
           \<and> requestType r = token_creation"
  using assms
  by (simp add: initiateTokenCreation_def Let_def save_new_def persisted_def)
    (intro exI conjI, rule refl, simp_all)

lemma rate_request_cases:
  "snd (updateInterestRateRequest env now userId newRate s) = s
   \<or> (is_manager s userId \<and>
       (\<exists>r. snd (updateInterestRateRequest env now userId newRate s)
               = s \<lparr> requests := requests s @ [r] \<rparr>
           \<and> signatures r = [first_signature s userId now] \<and> status r = pending
           \<and> requestType r = rate_change))"
proof (cases "snd (updateInterestRateRequest env now userId newRate s) = s")
  case True
  then show ?thesis by simp
next
  case False
  then obtain rate where "newRate = Some rate" and "is_manager s userId"
    and "\<not> (js_falsy rate \<or> js_lt rate (Num 0) \<or> js_gt rate (Num 100))"
    by (auto simp add: updateInterestRateRequest_def split: option.splits if_splits)
  then show ?thesis
    by (simp add: updateInterestRateRequest_def Let_def save_new_def persisted_def)
      (intro disjI2 exI conjI, rule refl, simp_all)
qed

lemma initiate_cases:
  "snd (initiateTokenCreation env now userId body s) = s
   \<or> (is_manager s userId \<and>
       (\<exists>r. snd (initiateTokenCreation env now userId body s)
               = s \<lparr> requests := requests s @ [r] \<rparr>
           \<and> signatures r = [first_signature s userId now] \<and> status r = pending
           \<and> requestType r = token_creation))"
  using initiate_refused [of s userId env now body] initiate_accepted [of s userId env now body]
  by blast

subsection \<open>Signers of stored requests\<close>

lemma is_manager_requests [simp]:
  "is_manager (s \<lparr> requests := rs \<rparr>) = is_manager s"
  "is_manager (s \<lparr> tokens := ts \<rparr>) = is_manager s"
  "is_manager (s \<lparr> hederaTokenId := h \<rparr>) = is_manager s"
  by (simp_all add: is_manager_def fun_eq_iff)

lemma request_ok_cong [simp]:
  "request_ok (s \<lparr> requests := rs \<rparr>) = request_ok s"
  "request_ok (s \<lparr> tokens := ts \<rparr>) = request_ok s"
  "request_ok (s \<lparr> hederaTokenId := h \<rparr>) = request_ok s"
  by (simp_all add: request_ok_def fun_eq_iff)

lemma first_signature_id [simp]: "managerId (first_signature s userId now) = userId"
  by (simp add: first_signature_def)

lemma requests_ok_append:
  assumes "requests_ok s" and "request_ok s r"
  shows "requests_ok (s \<lparr> requests := requests s @ [r] \<rparr>)"
  using assms by (simp add: requests_ok_def)

lemma requests_ok_update:
  assumes "requests_ok s" and "request_ok s r"
  shows "requests_ok (s \<lparr> requests := (requests s) [i := r] \<rparr>)"
  using assms
  by (auto simp add: requests_ok_def list_all_iff dest!: set_update_subset_insert [THEN subsetD])

lemma requests_ok_nth:
  assumes "requests_ok s" and "i < length (requests s)"
  shows "request_ok s (requests s ! i)"
  using assms by (simp add: requests_ok_def list_all_length)

lemma new_request_ok:
  assumes "is_manager s userId" and "signatures r = [first_signature s userId now]"
    and "status r = pending"
  shows "request_ok s r"
  using assms by (simp add: request_ok_def signers_def)

lemma initiate_keeps_ok:
  assumes "requests_ok s"
  shows "requests_ok (snd (initiateTokenCreation env now userId body s))"
proof -
  consider "snd (initiateTokenCreation env now userId body s) = s"
    | r where "is_manager s userId"
        "snd (initiateTokenCreation env now userId body s) = s \<lparr> requests := requests s @ [r] \<rparr>"
        "signatures r = [first_signature s userId now]" "status r = pending"
    using initiate_cases [of env now userId body s] by blast
  then show ?thesis
  proof cases
    case 1
    then show ?thesis using assms by simp
  next
    case (2 r)
    from 2(1,3,4) have "request_ok s r" by (rule new_request_ok)
    with assms show ?thesis unfolding 2(2) by (rule requests_ok_append)
  qed
qed

lemma rate_request_keeps_ok:
  assumes "requests_ok s"
  shows "requests_ok (snd (updateInterestRateRequest env now userId newRate s))"
proof -
  consider "snd (updateInterestRateRequest env now userId newRate s) = s"
    | r where "is_manager s userId"
        "snd (updateInterestRateRequest env now userId newRate s)
           = s \<lparr> requests := requests s @ [r] \<rparr>"
        "signatures r = [first_signature s userId now]" "status r = pending"
    using rate_request_cases [of env now userId newRate s] by blast
  then show ?thesis
  proof cases
    case 1
    then show ?thesis using assms by simp
  next
    case (2 r)
    from 2(1,3,4) have "request_ok s r" by (rule new_request_ok)
    with assms show ?thesis unfolding 2(2) by (rule requests_ok_append)
  qed
qed

lemma expired_ok:
  assumes "request_ok s r" and "status r = pending"
  shows "request_ok s (r \<lparr> status := rejected \<rparr>)"
  using assms by (simp add: request_ok_def signers_def)

lemma countersigned_ok:
  assumes "request_ok s r" and "status r = pending" and "is_manager s userId"
    and "userId \<notin> set (signers r)"
  shows "request_ok s (r \<lparr> signatures := signatures r @ [first_signature s userId now],
                           status := executed, executedAt := ea,
                           executionTransactionId := tx \<rparr>)"
    and "request_ok s (r \<lparr> signatures := signatures r @ [first_signature s userId now],
                           status := rejected \<rparr>)"
  using assms by (simp_all add: request_ok_def signers_def)

lemma approve_keeps_ok:
  assumes "requests_ok s"
  shows "requests_ok (fst (snd (approveTokenCreation L now userId rid s)))"
proof (cases rule: approve_cases [where s = s and userId = userId and rid = rid and now = now and L = L])
  case forbidden
  then show ?thesis using assms by (simp add: approve_not_manager)
next
  case missing
  then show ?thesis using assms by (simp add: approve_not_found)
next
  case settled
  then show ?thesis using assms by (simp add: approve_not_pending)
next
  case expired
  then show ?thesis
    using assms requests_ok_nth [OF assms, of rid]
    by (simp add: approve_expired requests_ok_update expired_ok)
next
  case duplicate
  then show ?thesis using assms by (simp add: approve_duplicate)
next
  case (executed tr)
  then have "request_ok s ((requests s ! rid)
      \<lparr> signatures := signatures (requests s ! rid) @ [first_signature s userId now],
        status := executed, executedAt := Some now,
        executionTransactionId := Some (tr_transactionId tr) \<rparr>)"
    using requests_ok_nth [OF assms, of rid]
    by (intro countersigned_ok) (simp_all add: may_approve_def)
  then show ?thesis
    using assms executed
    by (simp add: approve_executed requests_ok_def list_all_iff)
      (auto dest!: set_update_subset_insert [THEN subsetD])
next
  case (failed msg)
  then have "request_ok s ((requests s ! rid)
      \<lparr> signatures := signatures (requests s ! rid) @ [first_signature s userId now],
        status := rejected \<rparr>)"
    using requests_ok_nth [OF assms, of rid]
    by (intro countersigned_ok) (simp_all add: may_approve_def)
  then show ?thesis
    using assms failed by (simp add: approve_ledger_failed requests_ok_update)
qed

lemma handle_keeps_ok:
  assumes "requests_ok s"
  shows "requests_ok (fst (snd (handle env c s)))"
proof (cases c)
  case (InitiateTokenCreation now userId body)
  then show ?thesis
    using initiate_keeps_ok [OF assms, of env now userId body]
    by (simp add: split_beta)
next
  case (UpdateInterestRate now userId newRate)
  then show ?thesis
    using rate_request_keeps_ok [OF assms, of env now userId newRate]
    by (simp add: split_beta)
next
  case (ApproveTokenCreation L now userId rid)
  then show ?thesis using approve_keeps_ok [OF assms] by simp
qed

lemma run_keeps_ok:
  assumes "requests_ok s"
  shows "requests_ok (run env cs s)"
  using assms by (induction cs arbitrary: s) (simp_all add: handle_keeps_ok)

subsection \<open>Runs keep the users and the signer invariant\<close>

lemma users_approve:
  "users (fst (snd (approveTokenCreation L now userId rid s))) = users s"
  by (cases rule: approve_cases [where s = s and userId = userId and rid = rid and now = now and L = L])
    (simp_all add: approve_not_manager approve_not_found approve_not_pending approve_expired
      approve_duplicate approve_executed approve_ledger_failed)

lemma users_handle: "users (fst (snd (handle env c s))) = users s"
proof (cases c)
  case (InitiateTokenCreation now userId body)
  then show ?thesis
    using initiate_cases [of env now userId body s] by (auto simp add: split_beta)
next
  case (UpdateInterestRate now userId newRate)
  then show ?thesis
    using rate_request_cases [of env now userId newRate s] by (auto simp add: split_beta)
next
  case (ApproveTokenCreation L now userId rid)
  then show ?thesis by (simp add: users_approve)
qed

lemma users_run: "users (run env cs s) = users s"
  by (induction cs arbitrary: s) (simp_all add: users_handle)

lemma is_manager_run: "is_manager (run env cs s) = is_manager s"
  by (simp add: is_manager_def fun_eq_iff users_run)

lemma request_ok_run: "request_ok (run env cs s) = request_ok s"
  by (simp add: request_ok_def fun_eq_iff is_manager_run)

lemma executed_request_signers:
  assumes "requests s0 = []" and "r \<in> set (requests (run env cs s0))"
    and "status r = executed"
  shows "length (signatures r) = 2 \<and> distinct (signers r) \<and> card (set (signers r)) = 2
         \<and> list_all (is_manager s0) (signers r)"
proof -
  have "requests_ok s0" using assms(1) by (simp add: requests_ok_def)
  then have "requests_ok (run env cs s0)" by (rule run_keeps_ok)
  with assms(2) have "request_ok s0 r"
    by (simp add: requests_ok_def list_all_iff request_ok_run)
  with assms(3) have "length (signatures r) = 2" and d: "distinct (signers r)"
    and "list_all (is_manager s0) (signers r)"
    by (simp_all add: request_ok_def)
  moreover have "card (set (signers r)) = length (signers r)" using d by (rule distinct_card)
  ultimately show ?thesis by (simp add: signers_def)
qed

subsection \<open>Settled requests and ledger calls\<close>

lemma settled_after_handle:
  assumes "settled s rid"
  shows "settled (fst (snd (handle env c s))) rid"
proof (cases c)
  case (InitiateTokenCreation now userId body)
  then show ?thesis
    using initiate_cases [of env now userId body s] assms
    by (auto simp add: split_beta settled_def nth_append)
next
  case (UpdateInterestRate now userId newRate)
  then show ?thesis
    using rate_request_cases [of env now userId newRate s] assms
    by (auto simp add: split_beta settled_def nth_append)
next
  case c: (ApproveTokenCreation L now userId rid')
  show ?thesis
  proof (cases rule: approve_cases [where s = s and userId = userId and rid = rid' and now = now and L = L])
    case forbidden
    then show ?thesis using assms c by (simp add: approve_not_manager)
  next
    case missing
    then show ?thesis using assms c by (simp add: approve_not_found)
  next
    case settled
    then show ?thesis using assms c by (simp add: approve_not_pending)
  next
    case expired
    then show ?thesis using assms c
      by (auto simp add: approve_expired settled_def nth_list_update split: if_splits)
  next
    case duplicate
    then show ?thesis using assms c by (simp add: approve_duplicate)
  next
    case (executed tr)
    then show ?thesis using assms c
      by (auto simp add: approve_executed settled_def nth_list_update may_approve_def split: if_splits)
  next
    case (failed msg)
    then show ?thesis using assms c
      by (auto simp add: approve_ledger_failed settled_def nth_list_update may_approve_def split: if_splits)
  qed
qed

lemma settled_no_call:
  assumes "settled s rid"
  shows "snd (approveTokenCreation L now userId rid s) = (s, [])"
proof (cases "is_manager s userId")
  case True
  then show ?thesis using assms by (simp add: settled_def approve_not_pending)
next
  case False
  then show ?thesis by (simp add: approve_not_manager)
qed

lemma call_settles:
  assumes "snd (snd (approveTokenCreation L now userId rid s)) \<noteq> []"
  shows "may_approve s now userId rid
         \<and> settled (fst (snd (approveTokenCreation L now userId rid s))) rid
         \<and> signers (requests (fst (snd (approveTokenCreation L now userId rid s))) ! rid)
             = signers (requests s ! rid) @ [userId]
         \<and> length (snd (snd (approveTokenCreation L now userId rid s))) = 1"
proof (cases rule: approve_cases [where s = s and userId = userId and rid = rid and now = now and L = L])
  case forbidden
  then show ?thesis using assms by (simp add: approve_not_manager)
next
  case missing
  then show ?thesis using assms by (simp add: approve_not_found)
next
  case settled
  then show ?thesis using assms by (simp add: approve_not_pending)
next
  case expired
  then show ?thesis using assms by (simp add: approve_expired)
next
  case duplicate
  then show ?thesis using assms by (simp add: approve_duplicate)
next
  case (executed tr)
  then show ?thesis
    by (simp add: approve_executed settled_def signers_def) (simp add: may_approve_def)
next
  case (failed msg)
  then show ?thesis
    by (simp add: approve_ledger_failed settled_def signers_def) (simp add: may_approve_def)
qed

lemma settled_no_execution:
  assumes "settled s rid"
  shows "executions env rid cs s = 0"
  using assms
proof (induction cs arbitrary: s)
  case Nil
  then show ?case by simp
next
  case (Cons c cs)
  have later: "executions env rid cs (fst (snd (handle env c s))) = 0"
    using Cons.prems by (intro Cons.IH settled_after_handle)
  have now: "approves rid c \<Longrightarrow> snd (snd (handle env c s)) = []"
    using settled_no_call [OF Cons.prems] by (cases c) (simp_all add: split_beta)
  show ?case using later now by (simp add: split_beta)
qed

lemma executions_at_most_once: "executions env rid cs s \<le> 1"
proof (induction cs arbitrary: s)
  case Nil
  then show ?case by simp
next
  case (Cons c cs)
  show ?case
  proof (cases "approves rid c \<and> snd (snd (handle env c s)) \<noteq> []")
    case True
    then obtain L now userId where c: "c = ApproveTokenCreation L now userId rid"
      by (cases c) auto
    from True c have calls: "snd (snd (approveTokenCreation L now userId rid s)) \<noteq> []" by simp
    from call_settles [OF calls]
    have "settled (fst (snd (handle env c s))) rid"
      and "length (snd (snd (handle env c s))) = 1" using c by simp_all
    then show ?thesis using True by (simp add: split_beta settled_no_execution)
  next
    case False
    then have "(if approves rid c then length (snd (snd (handle env c s))) else 0) = 0" by auto
    then show ?thesis using Cons.IH [of "fst (snd (handle env c s))"] by (simp add: split_beta)
  qed
qed

subsection \<open>The small installation, evaluated\<close>

lemma office_managers:
  "is_manager office ''m1''" "is_manager office ''m2''" "\<not> is_manager office ''u1''"
  by (simp_all add: is_manager_def office_def office_users_def)

lemma opened_eq: "opened = office \<lparr> requests := [first_request] \<rparr>"
  by (simp add: opened_def initiateTokenCreation_def office_managers Let_def save_new_def
      persisted_def first_request_def first_signature_def text_or_def number_or_def
      office_env_def no_body_def hours24_def)
    (simp add: office_def office_users_def)

lemma opened_facts:
  "requests opened = [first_request]" "tokens opened = []"
  "is_manager opened = is_manager office"
  by (simp_all add: opened_eq) (simp add: office_def)

lemma m2_may_approve: "may_approve opened 1000 ''m2'' 0"
  by (simp add: may_approve_def opened_facts office_managers signers_def first_request_def)

lemma opened_m2_signature: "first_signature opened ''m2'' 1000 = m2_signature"
  by (simp add: first_signature_def m2_signature_def opened_eq) (simp add: office_def office_users_def)

lemma created_requests: "requests created = [executed_request]"
  unfolding created_def
  by (simp add: approve_executed [OF m2_may_approve] ledger_creates_def opened_facts
      executed_request_def opened_m2_signature)

lemma created_tokens: "map tokenId (tokens created) = [''0.0.5005'']"
  unfolding created_def
  by (simp add: approve_executed [OF m2_may_approve] ledger_creates_def opened_facts token_of_def)

lemma created_managers: "is_manager created = is_manager office"
  unfolding created_def
  by (simp add: approve_executed [OF m2_may_approve] ledger_creates_def opened_facts)

lemma run_created:
  "run office_env [InitiateTokenCreation 0 ''m1'' no_body,
                   ApproveTokenCreation (ledger_creates ''0.0.5005'') 1000 ''m2'' 0] office
     = created"
  by (simp add: split_beta created_def opened_def)

subsection \<open>Approvals of one request that overlap\<close>

text \<open>
  Taken one after the other without interruption, the three steps of an approval are
  the handler \<open>approveTokenCreation\<close>: same response, same state, same ledger calls.
\<close>

lemma written_atomic:
  "written (loaded r) (loaded r \<lparr> status := st \<rparr>) r = r \<lparr> status := st \<rparr>"
  "written (loaded r) (loaded r \<lparr> signatures := signatures r @ [sg], status := st \<rparr>) r
     = r \<lparr> signatures := signatures r @ [sg], status := st \<rparr>"
  "written (loaded r \<lparr> signatures := sigs, status := approved \<rparr>)
     (loaded r \<lparr> signatures := sigs, status := executed, executedAt := Some ea,
                 executionTransactionId := Some tx \<rparr>)
     (r \<lparr> signatures := sigs, status := approved \<rparr>)
     = r \<lparr> signatures := sigs, status := executed, executedAt := Some ea,
           executionTransactionId := Some tx \<rparr>"
  "written (loaded r \<lparr> signatures := sigs, status := approved \<rparr>)
     (loaded r \<lparr> signatures := sigs, status := rejected, metadata := m \<rparr>)
     (r \<lparr> signatures := sigs, status := approved \<rparr>)
     = r \<lparr> signatures := sigs, status := rejected \<rparr>"
  by (cases r; simp add: written_def loaded_def)+

lemma uninterrupted:
  "interleaved [0, 0, 0] [((L, now, userId, rid), Started)] s [] =
     ([((L, now, userId, rid), Answered (fst (approveTokenCreation L now userId rid s)))],
      snd (approveTokenCreation L now userId rid s))"
proof (cases rule: approve_cases [where s = s and userId = userId and rid = rid and now = now and L = L])
  case forbidden
  then show ?thesis
    by (auto simp add: approve_not_manager approve_read_def is_manager_def split: option.splits)
next
  case missing
  then show ?thesis
    by (auto simp add: approve_not_found approve_read_def is_manager_def findById_def
        split: option.splits)
next
  case settled
  then show ?thesis
    by (auto simp add: approve_not_pending approve_read_def is_manager_def findById_def
        approve_sign_def split: option.splits)
next
  case expired
  then show ?thesis
    by (auto simp add: approve_expired approve_read_def is_manager_def findById_def
        approve_sign_def save_changes_def written_atomic split: option.splits)
next
  case duplicate
  then show ?thesis
    by (auto simp add: approve_duplicate approve_read_def is_manager_def findById_def
        approve_sign_def list_ex_signers split: option.splits)
next
  case (executed tr)
  then show ?thesis
    by (auto simp add: approve_executed may_approve_def approve_read_def is_manager_def
        findById_def approve_sign_def list_ex_signers approve_execute_def Let_def
        save_changes_def written_atomic first_signature_def split: option.splits)
next
  case (failed msg)
  then show ?thesis
    by (auto simp add: approve_ledger_failed may_approve_def approve_read_def is_manager_def
        findById_def approve_sign_def list_ex_signers approve_execute_def Let_def
        save_changes_def written_atomic first_signature_def split: option.splits)
qed

text \<open>
  The two approvals of the small installation, step by step.
\<close>

lemma loaded_paths [simp]:
  "executedAt (loaded r) = executedAt r"
  "executionTransactionId (loaded r) = executionTransactionId r"
  by (simp_all add: loaded_def)

lemma first_request_fields:
  "status first_request = pending" "expiresAt first_request = 86400000"
  "signers first_request = [''m1'']" "length (signatures first_request) = 1"
  "executedAt first_request = None" "executionTransactionId first_request = None"
  by (simp_all add: first_request_def signers_def)

lemma staffed_facts:
  "requests staffed = [first_request]" "tokens staffed = []"
  by (simp_all add: staffed_def opened_facts)

lemma opened_read: "approve_read opened ''m2'' 0 = Loaded m2_user (loaded first_request)"
  by (simp add: approve_read_def opened_eq findById_def office_def office_users_def m2_user_def)

lemma staffed_read:
  "approve_read staffed ''m2'' 0 = Loaded m2_user (loaded first_request)"
  "approve_read staffed ''m3'' 0 = Loaded m3_user (loaded first_request)"
  by (simp_all add: approve_read_def staffed_def opened_eq findById_def office_def
      office_users_def m2_user_def m3_user_def)

lemma sign_first:
  assumes "requests s = [first_request]"
  shows "approve_sign 1000 ''m2'' 0 m2_user (loaded first_request) s =
     (Signed (loaded first_request
        \<lparr> signatures := signatures first_request @ [m2_signature], status := approved \<rparr>),
      s \<lparr> requests := [first_request
        \<lparr> signatures := signatures first_request @ [m2_signature], status := approved \<rparr>] \<rparr>)"
  by (simp add: approve_sign_def Let_def save_changes_def assms written_atomic
      m2_user_def m2_signature_def first_request_fields list_ex_signers)

lemma sign_second:
  assumes "userId \<noteq> ''m1''"
  shows "approve_sign 1001 userId 0 user (loaded first_request)
     (s \<lparr> requests := [first_request
        \<lparr> signatures := signatures first_request @ [m2_signature], status := approved \<rparr>] \<rparr>) =
     (Signed (loaded first_request
        \<lparr> signatures := signatures first_request @
             [\<lparr> managerId = userId, managerAccountId = hederaAccountId user, signedAt = 1001 \<rparr>],
          status := approved \<rparr>),
      s \<lparr> requests := [first_request
        \<lparr> signatures := signatures first_request @
             [m2_signature,
              \<lparr> managerId = userId, managerAccountId = hederaAccountId user, signedAt = 1001 \<rparr>],
          status := approved \<rparr>] \<rparr>)"
  using assms
  by (simp add: approve_sign_def Let_def save_changes_def written_def
      first_request_fields list_ex_signers)

lemma execute_first:
  assumes "tokens s = []"
  shows "approve_execute (ledger_creates ''0.0.5005'') 1000 0
     (loaded first_request
        \<lparr> signatures := signatures first_request @ [m2_signature], status := approved \<rparr>)
     (s \<lparr> requests := [first_request
        \<lparr> signatures := signatures first_request @ [m2_signature, sg],
          status := approved \<rparr>] \<rparr>) =
     (Answered (Response 200 True ''Token creation approved and executed successfully''
        (Some (TokenCreatedData ''0.0.5005'' ''Pezzy Money Market Token'' ''PMKT''
           ''tx-0.0.5005'' ''0.0.1000'')) None),
      s \<lparr> requests := [first_request
          \<lparr> signatures := signatures first_request @ [m2_signature, sg],
            status := executed, executedAt := Some 1000,
            executionTransactionId := Some ''tx-0.0.5005'' \<rparr>],
        tokens := [token_5005], hederaTokenId := Some ''0.0.5005'' \<rparr>,
      [requestData first_request])"
  by (simp add: approve_execute_def Let_def save_changes_def written_def assms
      first_request_fields token_5005_def ledger_creates_def)

lemma execute_second:
  "approve_execute (ledger_creates ''0.0.5006'') 1001 0
     (loaded first_request
        \<lparr> signatures := signatures first_request @ [sg], status := approved \<rparr>)
     (s \<lparr> requests := [first_request
          \<lparr> signatures := signatures first_request @ [m2_signature, sg],
            status := executed, executedAt := Some 1000,
            executionTransactionId := Some ''tx-0.0.5005'' \<rparr>],
        tokens := [token_5005], hederaTokenId := Some ''0.0.5005'' \<rparr>) =
     (Answered (Response 200 True ''Token creation approved and executed successfully''
        (Some (TokenCreatedData ''0.0.5006'' ''Pezzy Money Market Token'' ''PMKT''
           ''tx-0.0.5006'' ''0.0.1000'')) None),
      s \<lparr> requests := [first_request
          \<lparr> signatures := signatures first_request @ [m2_signature, sg],
            status := executed, executedAt := Some 1001,
            executionTransactionId := Some ''tx-0.0.5006'' \<rparr>],
        tokens := [token_5005, token_5006], hederaTokenId := Some ''0.0.5006'' \<rparr>,
      [requestData first_request])"
  by (simp add: approve_execute_def Let_def save_changes_def written_def
      first_request_fields token_5006_def ledger_creates_def)

lemma m2_twice:
  "interleaved alternating approvals_by_m2 opened [] =
     ([((ledger_creates ''0.0.5005'', 1000, ''m2'', 0),
        Answered (Response 200 True ''Token creation approved and executed successfully''
          (Some (TokenCreatedData ''0.0.5005'' ''Pezzy Money Market Token'' ''PMKT''
             ''tx-0.0.5005'' ''0.0.1000'')) None)),
       ((ledger_creates ''0.0.5006'', 1001, ''m2'', 0),
        Answered (Response 200 True ''Token creation approved and executed successfully''
          (Some (TokenCreatedData ''0.0.5006'' ''Pezzy Money Market Token'' ''PMKT''
             ''tx-0.0.5006'' ''0.0.1000'')) None))],
      opened \<lparr> requests := [first_request
          \<lparr> signatures := signatures first_request @ [m2_signature, m2_again],
            status := executed, executedAt := Some 1001,
            executionTransactionId := Some ''tx-0.0.5006'' \<rparr>],
        tokens := [token_5005, token_5006], hederaTokenId := Some ''0.0.5006'' \<rparr>,
      [requestData first_request, requestData first_request])"
proof -
  have second: "\<lparr> managerId = ''m2'', managerAccountId = hederaAccountId m2_user, signedAt = 1001 \<rparr>
      = m2_again" by (simp add: m2_again_def m2_user_def)
  show ?thesis
    unfolding alternating_def approvals_by_m2_def
    by (simp add: opened_read sign_first [OF opened_facts(1)] sign_second second
        execute_first [OF opened_facts(2)] execute_second)
qed

lemma m2_and_m3:
  "interleaved alternating approvals_by_m2_and_m3 staffed [] =
     ([((ledger_creates ''0.0.5005'', 1000, ''m2'', 0),
        Answered (Response 200 True ''Token creation approved and executed successfully''
          (Some (TokenCreatedData ''0.0.5005'' ''Pezzy Money Market Token'' ''PMKT''
             ''tx-0.0.5005'' ''0.0.1000'')) None)),
       ((ledger_creates ''0.0.5006'', 1001, ''m3'', 0),
        Answered (Response 200 True ''Token creation approved and executed successfully''
          (Some (TokenCreatedData ''0.0.5006'' ''Pezzy Money Market Token'' ''PMKT''
             ''tx-0.0.5006'' ''0.0.1000'')) None))],
      staffed \<lparr> requests := [first_request
          \<lparr> signatures := signatures first_request @ [m2_signature, m3_signature],
            status := executed, executedAt := Some 1001,
            executionTransactionId := Some ''tx-0.0.5006'' \<rparr>],
        tokens := [token_5005, token_5006], hederaTokenId := Some ''0.0.5006'' \<rparr>,
      [requestData first_request, requestData first_request])"
proof -
  have second: "\<lparr> managerId = ''m3'', managerAccountId = hederaAccountId m3_user, signedAt = 1001 \<rparr>
      = m3_signature" by (simp add: m3_signature_def m3_user_def)
  show ?thesis
    unfolding alternating_def approvals_by_m2_and_m3_def
    by (simp add: staffed_read sign_first [OF staffed_facts(1)] sign_second second
        execute_first [OF staffed_facts(2)] execute_second)
qed

lemma first_done:
  "interleaved first_answered approvals_by_m2 opened [] =
     ([((ledger_creates ''0.0.5005'', 1000, ''m2'', 0),
        Answered (Response 200 True ''Token creation approved and executed successfully''
          (Some (TokenCreatedData ''0.0.5005'' ''Pezzy Money Market Token'' ''PMKT''
             ''tx-0.0.5005'' ''0.0.1000'')) None)),
       ((ledger_creates ''0.0.5006'', 1001, ''m2'', 0),
        Signed (loaded first_request
          \<lparr> signatures := signatures first_request @ [m2_again], status := approved \<rparr>))],
      opened \<lparr> requests := [first_request
          \<lparr> signatures := signatures first_request @ [m2_signature, m2_again],
            status := executed, executedAt := Some 1000,
            executionTransactionId := Some ''tx-0.0.5005'' \<rparr>],
        tokens := [token_5005], hederaTokenId := Some ''0.0.5005'' \<rparr>,
      [requestData first_request])"
proof -
  have second: "\<lparr> managerId = ''m2'', managerAccountId = hederaAccountId m2_user, signedAt = 1001 \<rparr>
      = m2_again" by (simp add: m2_again_def m2_user_def)
  show ?thesis
    unfolding first_answered_def approvals_by_m2_def
    by (simp add: opened_read sign_first [OF opened_facts(1)] sign_second second
        execute_first [OF opened_facts(2)])
qed

lemma one_signed:
  "interleaved first_signed approvals_by_m2 opened [] =
     ([((ledger_creates ''0.0.5005'', 1000, ''m2'', 0),
        Signed (loaded first_request
          \<lparr> signatures := signatures first_request @ [m2_signature], status := approved \<rparr>)),
       ((ledger_creates ''0.0.5006'', 1001, ''m2'', 0), Loaded m2_user (loaded first_request))],
      opened \<lparr> requests := [first_request
          \<lparr> signatures := signatures first_request @ [m2_signature], status := approved \<rparr>] \<rparr>,
      [])"
  unfolding first_signed_def approvals_by_m2_def
  by (simp add: opened_read sign_first [OF opened_facts(1)])

lemma two_signed:
  "interleaved both_signed approvals_by_m2 opened [] =
     ([((ledger_creates ''0.0.5005'', 1000, ''m2'', 0),
        Signed (loaded first_request
          \<lparr> signatures := signatures first_request @ [m2_signature], status := approved \<rparr>)),
       ((ledger_creates ''0.0.5006'', 1001, ''m2'', 0),
        Signed (loaded first_request
          \<lparr> signatures := signatures first_request @ [m2_again], status := approved \<rparr>))],
      opened \<lparr> requests := [first_request
          \<lparr> signatures := signatures first_request @ [m2_signature, m2_again],
            status := approved \<rparr>] \<rparr>,
      [])"
proof -
  have second: "\<lparr> managerId = ''m2'', managerAccountId = hederaAccountId m2_user, signedAt = 1001 \<rparr>
      = m2_again" by (simp add: m2_again_def m2_user_def)
  show ?thesis
    unfolding both_signed_def approvals_by_m2_def
    by (simp add: opened_read sign_first [OF opened_facts(1)] sign_second second)
qed

text \<open>
  Claim C1 does not hold of the code when two approvals of one request overlap. In
  \<open>opened\<close> the request of manager \<open>m1\<close> is pending and holds the signature of \<open>m1\<close>
  alone. Manager \<open>m2\<close> sends the approval twice and the two calls take their steps in
  turn. Both read the request while it is pending. When the second call comes to its
  checks, the first has saved and the stored request holds the signatures of \<open>m1\<close> and
  \<open>m2\<close>; but the duplicate check is made on the copy the second call has read, so the
  call is not answered 400 ``You have already signed this request'': it appends a second
  signature of \<open>m2\<close>. Both calls are answered 200, and the request is \<open>executed\<close> with
  the three signatures of \<open>m1\<close>, \<open>m2\<close> and \<open>m2\<close>. When the second approval is sent by a
  third manager \<open>m3\<close> instead, the request is \<open>executed\<close> with three distinct signers,
  not with exactly two. In both runs the signers still include two distinct managers;
  and when the requests are handled one after the other every executed request has
  exactly two signatures, by two distinct managers (lemmas \<open>executed_request_signers\<close>
  and \<open>approve_duplicate\<close>).
\<close>

theorem overlapping_approvals_sign_twice:
  "signers (requests (fst (snd (interleaved first_signed approvals_by_m2 opened []))) ! 0)
       = [''m1'', ''m2'']
   \<and> map snd (fst (interleaved first_signed approvals_by_m2 opened [])) ! 1
       = Loaded m2_user (loaded first_request)
   \<and> both_signed = first_signed @ [1]
   \<and> signers (requests (fst (snd (interleaved both_signed approvals_by_m2 opened []))) ! 0)
       = [''m1'', ''m2'', ''m2'']
   \<and> alternating = both_signed @ [0, 1]
   \<and> map snd (fst (interleaved alternating approvals_by_m2 opened [])) =
       [Answered (Response 200 True ''Token creation approved and executed successfully''
          (Some (TokenCreatedData ''0.0.5005'' ''Pezzy Money Market Token'' ''PMKT''
             ''tx-0.0.5005'' ''0.0.1000'')) None),
        Answered (Response 200 True ''Token creation approved and executed successfully''
          (Some (TokenCreatedData ''0.0.5006'' ''Pezzy Money Market Token'' ''PMKT''
             ''tx-0.0.5006'' ''0.0.1000'')) None)]
   \<and> status (requests (fst (snd (interleaved alternating approvals_by_m2 opened []))) ! 0)
       = executed
   \<and> signers (requests (fst (snd (interleaved alternating approvals_by_m2 opened []))) ! 0)
       = [''m1'', ''m2'', ''m2'']
   \<and> status (requests (fst (snd (interleaved alternating approvals_by_m2_and_m3 staffed []))) ! 0)
       = executed
   \<and> signers (requests (fst (snd (interleaved alternating approvals_by_m2_and_m3 staffed []))) ! 0)
       = [''m1'', ''m2'', ''m3'']"
proof -
  have "both_signed = first_signed @ [1]" "alternating = both_signed @ [0, 1]"
    by (simp_all add: alternating_def both_signed_def first_signed_def)
  moreover have "signers (requests (fst (snd (interleaved first_signed approvals_by_m2 opened []))) ! 0)
       = [''m1'', ''m2'']"
    "map snd (fst (interleaved first_signed approvals_by_m2 opened [])) ! 1
       = Loaded m2_user (loaded first_request)"
    by (simp_all add: one_signed signers_def first_request_def m2_signature_def)
  moreover have "signers (requests (fst (snd (interleaved both_signed approvals_by_m2 opened []))) ! 0)
       = [''m1'', ''m2'', ''m2'']"
    by (simp add: two_signed signers_def first_request_def m2_signature_def m2_again_def)
  moreover have "map snd (fst (interleaved alternating approvals_by_m2 opened [])) =
       [Answered (Response 200 True ''Token creation approved and executed successfully''
          (Some (TokenCreatedData ''0.0.5005'' ''Pezzy Money Market Token'' ''PMKT''
             ''tx-0.0.5005'' ''0.0.1000'')) None),
        Answered (Response 200 True ''Token creation approved and executed successfully''
          (Some (TokenCreatedData ''0.0.5006'' ''Pezzy Money Market Token'' ''PMKT''
             ''tx-0.0.5006'' ''0.0.1000'')) None)]"
    "status (requests (fst (snd (interleaved alternating approvals_by_m2 opened []))) ! 0)
       = executed"
    "signers (requests (fst (snd (interleaved alternating approvals_by_m2 opened []))) ! 0)
       = [''m1'', ''m2'', ''m2'']"
    by (simp_all add: m2_twice signers_def first_request_def m2_signature_def m2_again_def)
  moreover have
    "status (requests (fst (snd (interleaved alternating approvals_by_m2_and_m3 staffed []))) ! 0)
       = executed"
    "signers (requests (fst (snd (interleaved alternating approvals_by_m2_and_m3 staffed []))) ! 0)
       = [''m1'', ''m2'', ''m3'']"
    by (simp_all add: m2_and_m3 signers_def first_request_def m2_signature_def m3_signature_def)
  ultimately show ?thesis by blast
qed

text \<open>
  Claim C2 does not hold of the code when two approvals of one request overlap. In the
  run of the two approvals by \<open>m2\<close>, once the first call has been answered the request
  is \<open>executed\<close> and the ledger has been called once. The second call has read the
  request while it was pending; its last step then calls the ledger again, for a request
  that is no longer pending: \<open>createTokenWithMultiSig\<close> is called twice for the one
  request and two Token records are stored. An approval that starts once the request has
  left the pending state is refused, and when the requests are handled one after the
  other the approvals of a request make at most one ledger call (lemmas
  \<open>approve_not_pending\<close>, \<open>settled_no_call\<close> and \<open>executions_at_most_once\<close>).
\<close>

theorem overlapping_approvals_execute_twice:
  "status (requests (fst (snd (interleaved first_answered approvals_by_m2 opened []))) ! 0)
       = executed
   \<and> snd (snd (interleaved first_answered approvals_by_m2 opened []))
       = [requestData first_request]
   \<and> alternating = first_answered @ [1]
   \<and> snd (snd (interleaved alternating approvals_by_m2 opened []))
       = [requestData first_request, requestData first_request]
   \<and> map tokenId (tokens (fst (snd (interleaved alternating approvals_by_m2 opened []))))
       = [''0.0.5005'', ''0.0.5006'']
   \<and> length (requests (fst (snd (interleaved alternating approvals_by_m2 opened [])))) = 1"
proof -
  have "alternating = first_answered @ [1]"
    by (simp add: alternating_def first_answered_def)
  moreover have
    "status (requests (fst (snd (interleaved first_answered approvals_by_m2 opened []))) ! 0)
       = executed"
    "snd (snd (interleaved first_answered approvals_by_m2 opened []))
       = [requestData first_request]"
    by (simp_all add: first_done)
  moreover have
    "snd (snd (interleaved alternating approvals_by_m2 opened []))
       = [requestData first_request, requestData first_request]"
    "map tokenId (tokens (fst (snd (interleaved alternating approvals_by_m2 opened []))))
       = [''0.0.5005'', ''0.0.5006'']"
    "length (requests (fst (snd (interleaved alternating approvals_by_m2 opened [])))) = 1"
    by (simp_all add: m2_twice token_5005_def token_5006_def ledger_creates_def token_of_def)
  ultimately show ?thesis by blast
qed

subsection \<open>What an approval executes\<close>

lemma retyped_simps [simp]:
  "is_manager (retyped rid ty s) = is_manager s"
  "length (requests (retyped rid ty s)) = length (requests s)"
  "tokens (retyped rid ty s) = tokens s"
  by (simp_all add: retyped_def)

lemma retyped_nth:
  assumes "rid < length (requests s)"
  shows "requests (retyped rid ty s) ! rid = (requests s ! rid) \<lparr> requestType := ty \<rparr>"
  using assms by (simp add: retyped_def)

lemma first_signature_retyped [simp]:
  "first_signature (retyped rid ty s) userId now = first_signature s userId now"
  by (simp add: first_signature_def retyped_def)

lemma may_approve_retyped [simp]:
  "may_approve (retyped rid ty s) now userId rid = may_approve s now userId rid"
  by (auto simp add: may_approve_def retyped_nth signers_def)

lemma approve_ignores_type:
  "approveTokenCreation L now userId rid (retyped rid ty s) =
     (fst (approveTokenCreation L now userId rid s),
      retyped rid ty (fst (snd (approveTokenCreation L now userId rid s))),
      snd (snd (approveTokenCreation L now userId rid s)))"
proof (cases rule: approve_cases [where s = s and userId = userId and rid = rid and now = now and L = L])
  case forbidden
  then show ?thesis by (simp add: approve_not_manager)
next
  case missing
  then show ?thesis by (simp add: approve_not_found)
next
  case settled
  then show ?thesis by (simp add: approve_not_pending retyped_nth)
next
  case expired
  then show ?thesis by (simp add: approve_expired retyped_nth) (cases "requests s ! rid", simp add: retyped_def)
next
  case duplicate
  then show ?thesis by (simp add: approve_duplicate retyped_nth signers_def)
next
  case (executed tr)
  then have len: "rid < length (requests s)" by (simp add: may_approve_def)
  have "may_approve (retyped rid ty s) now userId rid"
    and "L (requestData (requests (retyped rid ty s) ! rid)) = Inr tr"
    using executed len by (simp_all add: retyped_nth)
  then show ?thesis
    using executed len by (simp add: approve_executed retyped_nth) (cases "requests s ! rid", simp add: retyped_def)
next
  case (failed msg)
  then have len: "rid < length (requests s)" by (simp add: may_approve_def)
  have "may_approve (retyped rid ty s) now userId rid"
    and "L (requestData (requests (retyped rid ty s) ! rid)) = Inl msg"
    using failed len by (simp_all add: retyped_nth)
  then show ?thesis
    using failed len by (simp add: approve_ledger_failed retyped_nth) (cases "requests s ! rid", simp add: retyped_def)
qed

lemma approve_calls_token_creation:
  assumes "may_approve s now userId rid"
  shows "snd (snd (approveTokenCreation L now userId rid s)) = [requestData (requests s ! rid)]
       \<and> (L (requestData (requests s ! rid)) = Inr tr \<longrightarrow>
           tokens (fst (snd (approveTokenCreation L now userId rid s))) = tokens s @ [token_of tr]
           \<and> status (requests (fst (snd (approveTokenCreation L now userId rid s))) ! rid)
               = executed)"
proof (cases "L (requestData (requests s ! rid))")
  case (Inl msg)
  then show ?thesis using assms by (simp add: approve_ledger_failed)
next
  case (Inr tr')
  then show ?thesis
    using assms by (simp add: approve_executed) (simp add: may_approve_def)
qed

text \<open>
  Claim C10. The approval handler never inspects \<open>requestType\<close>. For a pending,
  unexpired request of any type and a manager who has not signed it, the approval calls
  \<open>createTokenWithMultiSig\<close> exactly once, with that request's \<open>requestData\<close>; when the
  call succeeds a Token record is inserted and the request becomes \<open>executed\<close>. Replacing
  the type of the request by any other type changes neither the response nor the ledger
  calls, and the resulting state differs only in that stored type.
\<close>

theorem approval_always_creates_a_token:
  "(may_approve s now userId rid \<longrightarrow>
      snd (snd (approveTokenCreation L now userId rid s)) = [requestData (requests s ! rid)]
      \<and> (L (requestData (requests s ! rid)) = Inr tr \<longrightarrow>
           tokens (fst (snd (approveTokenCreation L now userId rid s))) = tokens s @ [token_of tr]
           \<and> status (requests (fst (snd (approveTokenCreation L now userId rid s))) ! rid)
               = executed))
   \<and> approveTokenCreation L now userId rid (retyped rid ty s) =
       (fst (approveTokenCreation L now userId rid s),
        retyped rid ty (fst (snd (approveTokenCreation L now userId rid s))),
        snd (snd (approveTokenCreation L now userId rid s)))"
  using approve_calls_token_creation [of s now userId rid L tr]
    approve_ignores_type [of L now userId rid ty s]
  by blast

lemma burn_may_approve: "may_approve (retyped 0 token_burn opened) 1000 ''m2'' 0"
  using m2_may_approve by simp

theorem approval_always_creates_a_token_witness:
  "may_approve (retyped 0 token_burn opened) 1000 ''m2'' 0
   \<and> requestType (requests (retyped 0 token_burn opened) ! 0) = token_burn
   \<and> ledger_creates ''0.0.5005'' (requestData (requests (retyped 0 token_burn opened) ! 0))
       = Inr (projr (ledger_creates ''0.0.5005'' (requestData first_request)))
   \<and> snd (snd (approveTokenCreation (ledger_creates ''0.0.5005'') 1000 ''m2'' 0
                 (retyped 0 token_burn opened)))
       = [requestData first_request]
   \<and> map tokenId (tokens (fst (snd (approveTokenCreation (ledger_creates ''0.0.5005'') 1000 ''m2'' 0
                 (retyped 0 token_burn opened)))))
       = [''0.0.5005'']"
proof -
  have a: "requests (retyped 0 token_burn opened) ! 0 = first_request \<lparr> requestType := token_burn \<rparr>"
    "tokens (retyped 0 token_burn opened) = []"
    by (simp_all add: retyped_def opened_facts)
  have b: "ledger_creates ''0.0.5005'' (requestData (requests (retyped 0 token_burn opened) ! 0))
       = Inr (projr (ledger_creates ''0.0.5005'' (requestData first_request)))"
    by (simp add: ledger_creates_def)
  show ?thesis
    using approval_always_creates_a_token [where s = "retyped 0 token_burn opened" and now = 1000
        and userId = "''m2''" and rid = 0 and L = "ledger_creates ''0.0.5005''"
        and tr = "projr (ledger_creates ''0.0.5005'' (requestData first_request))"]
      burn_may_approve a b
    by (simp add: ledger_creates_def token_of_def)
qed

subsection \<open>Approving a rate change\<close>

lemma rate_opened_eq: "rate_opened = office \<lparr> requests := [rate_request] \<rparr>"
  by (simp add: rate_opened_def updateInterestRateRequest_def office_managers Let_def save_new_def
      persisted_def rate_request_def first_signature_def js_gt_def
      office_env_def hours24_def)
    (simp add: office_def office_users_def)

lemma rate_m2_may_approve: "may_approve rate_opened 1000 ''m2'' 0"
  by (simp add: may_approve_def rate_opened_eq office_managers signers_def rate_request_def)

lemma interest_service_approve:
  "interestService (fst (snd (approveTokenCreation L now userId rid s))) = interestService s"
  by (cases rule: approve_cases [where s = s and userId = userId and rid = rid and now = now and L = L])
    (simp_all add: approve_not_manager approve_not_found approve_not_pending approve_expired
      approve_duplicate approve_executed approve_ledger_failed)

lemma interest_service_untouched:
  "interestService (fst (snd (handle env c s))) = interestService s"
proof (cases c)
  case (InitiateTokenCreation now userId body)
  then show ?thesis
    using initiate_cases [of env now userId body s] by (auto simp add: split_beta)
next
  case (UpdateInterestRate now userId newRate)
  then show ?thesis
    using rate_request_cases [of env now userId newRate s] by (auto simp add: split_beta)
next
  case (ApproveTokenCreation L now userId rid)
  then show ?thesis by (simp add: interest_service_approve)
qed

text \<open>
  Claim C3 asks that a \<open>rate_change\<close> request which reaches quorum makes no ledger call
  and sets the interest service's \<open>annualRate\<close> to the requested rate. The controller
  opens such requests (``Update interest rate (requires multi-sig)'') but has one
  approval handler only, and no handler ever assigns the interest service. When manager
  \<open>m1\<close> asks for 5 percent and manager \<open>m2\<close> approves the request, the handler calls
  \<open>createTokenWithMultiSig\<close> with the rate data, stores a Token record, marks the request
  \<open>executed\<close>, and the annual rate is still 8.5 percent.
\<close>

theorem rate_change_approval_creates_token:
  "requestType (requests rate_opened ! 0) = rate_change
   \<and> requestData (requests rate_opened ! 0) = RateChangeData (Num 5) (Num (17 / 2))
   \<and> may_approve rate_opened 1000 ''m2'' 0
   \<and> snd (snd (approveTokenCreation (ledger_creates ''0.0.5005'') 1000 ''m2'' 0 rate_opened))
       = [RateChangeData (Num 5) (Num (17 / 2))]
   \<and> map tokenId (tokens (fst (snd
         (approveTokenCreation (ledger_creates ''0.0.5005'') 1000 ''m2'' 0 rate_opened))))
       = [''0.0.5005'']
   \<and> status (requests (fst (snd
         (approveTokenCreation (ledger_creates ''0.0.5005'') 1000 ''m2'' 0 rate_opened))) ! 0)
       = executed
   \<and> annualRate (interestService (fst (snd
         (approveTokenCreation (ledger_creates ''0.0.5005'') 1000 ''m2'' 0 rate_opened))))
       = Num (17 / 200)
   \<and> annualRate (interestService rate_opened) = Num (17 / 200)"
proof -
  have a: "requests rate_opened = [rate_request]" "tokens rate_opened = []"
    "interestService rate_opened = InterestService None"
    by (simp_all add: rate_opened_eq) (simp_all add: office_def)
  show ?thesis
    using rate_m2_may_approve
    by (simp add: approve_executed [OF rate_m2_may_approve] ledger_creates_def a token_of_def
        default_service)
      (simp add: rate_request_def)
qed

subsection \<open>Failures that change the state\<close>

text \<open>
  An approval of a pending request after its deadline stores the request as \<open>rejected\<close>
  and answers 400 ``Request has expired'' (lemma \<open>approve_expired\<close> above). When the
  ledger call fails, the request is stored as \<open>rejected\<close> with the second signature,
  the ledger is called once, and the error's message is returned in a 500 response (lemma
  \<open>approve_ledger_failed\<close>). The stored state does not depend on the message:
\<close>

lemma ledger_failure_message_not_stored:
  assumes "may_approve s now userId rid"
    and "L (requestData (requests s ! rid)) = Inl msg"
    and "L' (requestData (requests s ! rid)) = Inl msg'"
  shows "fst (snd (approveTokenCreation L now userId rid s))
       = fst (snd (approveTokenCreation L' now userId rid s))"
  using assms by (simp add: approve_ledger_failed)

text \<open>
  Claim C4 asks, for a ledger failure, that the request is stored as rejected with the
  error captured in its \<open>metadata\<close>. The handler assigns \<open>metadata\<close> on the document in
  memory, but \<open>multiSigRequestSchema\<close> declares no such path, so the error is not in what
  \<open>save\<close> writes. With a ledger that fails with INSUFFICIENT\_PAYER\_BALANCE, the stored
  request has status \<open>rejected\<close> and no field that holds the message, and the stored state
  is the one a failure with any other message leaves.
\<close>

theorem ledger_error_not_persisted:
  "approveTokenCreation (ledger_fails ''INSUFFICIENT_PAYER_BALANCE'') 1000 ''m2'' 0 opened =
     (Response 500 False ''Failed to approve token creation'' None
        (Some ''Failed to create token: INSUFFICIENT_PAYER_BALANCE''),
      office \<lparr> requests :=
        [\<lparr> requestType = token_creation,
           description = Text ''Create Pezzy Money Market Token'',
           requestData = TokenCreationData (Some ''Pezzy Money Market Token'') (Some ''PMKT'')
                           (Num 2) (Num 0),
           requiredSignatures = 2,
           signatures = [\<lparr> managerId = ''m1'', managerAccountId = Some ''0.0.1001'', signedAt = 0 \<rparr>,
                         \<lparr> managerId = ''m2'', managerAccountId = Some ''0.0.1002'', signedAt = 1000 \<rparr>],
           status = rejected, executedAt = None, executionTransactionId = None,
           createdBy = ''m1'', expiresAt = 86400000 \<rparr>] \<rparr>,
      [TokenCreationData (Some ''Pezzy Money Market Token'') (Some ''PMKT'') (Num 2) (Num 0)])
   \<and> fst (snd (approveTokenCreation (ledger_fails ''INSUFFICIENT_PAYER_BALANCE'') 1000 ''m2'' 0 opened))
     = fst (snd (approveTokenCreation (ledger_fails ''TOKEN_HAS_NO_SUPPLY_KEY'') 1000 ''m2'' 0 opened))"
  by (simp add: approve_ledger_failed [OF m2_may_approve] ledger_fails_def opened_facts
      opened_m2_signature)
    (simp add: opened_eq first_request_def m2_signature_def)

subsection \<open>More than one token\<close>

text \<open>
  Opening a token creation request while a Token record exists is answered with 400
  ``Token already exists'' (ConflictError) and stores nothing; and Token records are
  never removed, so this stays so after a creation.
\<close>

lemma initiate_conflict:
  assumes "is_manager s userId" and "tokens s \<noteq> []"
  shows "initiateTokenCreation env now userId body s =
           (Response 400 False ''Token already exists'' None None, s)"
  using assms by (simp add: initiateTokenCreation_def)

lemma tokens_never_removed:
  "\<exists>ts. tokens (fst (snd (handle env c s))) = tokens s @ ts"
proof (cases c)
  case (InitiateTokenCreation now userId body)
  then show ?thesis
    using initiate_cases [of env now userId body s] by (auto simp add: split_beta)
next
  case (UpdateInterestRate now userId newRate)
  then show ?thesis
    using rate_request_cases [of env now userId newRate s] by (auto simp add: split_beta)
next
  case c: (ApproveTokenCreation L now userId rid)
  show ?thesis
    by (cases rule: approve_cases [where s = s and userId = userId and rid = rid and now = now and L = L])
      (simp_all add: c approve_not_manager approve_not_found approve_not_pending approve_expired
        approve_duplicate approve_executed approve_ledger_failed)
qed

lemma tokens_stay:
  assumes "tokens s \<noteq> []"
  shows "tokens (run env cs s) \<noteq> []"
  using assms
proof (induction cs arbitrary: s)
  case Nil
  then show ?case by simp
next
  case (Cons c cs)
  obtain ts where "tokens (fst (snd (handle env c s))) = tokens s @ ts"
    using tokens_never_removed [of env c s] by blast
  with Cons.prems have "tokens (fst (snd (handle env c s))) \<noteq> []" by simp
  then show ?case by (simp add: Cons.IH)
qed

text \<open>
  Claim C9 concludes that the Token record is a singleton, created at most once. The
  check for an existing token is made when a request is opened and not when it is
  approved. Two token creation requests opened before the first approval are both
  executed: manager \<open>m1\<close> opens two, manager \<open>m2\<close> approves both, the ledger creates the
  tokens \<open>0.0.5005\<close> and \<open>0.0.5006\<close>, and two Token records are stored.
\<close>

theorem two_pending_creations_make_two_tokens:
  "map tokenId (tokens (run office_env
       [InitiateTokenCreation 0 ''m1'' no_body,
        InitiateTokenCreation 1 ''m1'' no_body,
        ApproveTokenCreation (ledger_creates ''0.0.5005'') 1000 ''m2'' 0,
        ApproveTokenCreation (ledger_creates ''0.0.5006'') 2000 ''m2'' 1] office))
     = [''0.0.5005'', ''0.0.5006'']
   \<and> map status (requests (run office_env
       [InitiateTokenCreation 0 ''m1'' no_body,
        InitiateTokenCreation 1 ''m1'' no_body,
        ApproveTokenCreation (ledger_creates ''0.0.5005'') 1000 ''m2'' 0,
        ApproveTokenCreation (ledger_creates ''0.0.5006'') 2000 ''m2'' 1] office))
     = [executed, executed]"
  by (simp add: split_beta initiateTokenCreation_def approveTokenCreation_def Let_def
      is_manager_def office_def office_users_def findById_def save_def save_new_def
      loaded_def persisted_def ledger_creates_def token_of_def first_signature_def
      office_env_def no_body_def text_or_def number_or_def hours24_def)

end
